theory Spec2Isabelle
  imports Main "HOL-Library.Word" "HOL-Library.Sublist"
begin

section \<open>Python values\<close>

text \<open>
  A Python \<open>str\<close> is a sequence of Unicode code points, a \<open>bytes\<close> object a sequence of
  integers below 256. String literals of the source are ASCII and are written through
  \<open>lit\<close>, which maps every character of an Isabelle string to its code point.
\<close>

type_synonym codepoint = nat
type_synonym pystr = "codepoint list"
type_synonym byte = "8 word"

definition lit :: "string \<Rightarrow> pystr" where
  "lit s = map of_char s"

text \<open>
  An exception raised by a library or by the interpreter: its class name and the text that
  \<open>str(e)\<close> gives. Every exception of the model is an instance of Python's \<open>Exception\<close>,
  as the ones raised by \<open>smtplib\<close>, \<open>email\<close> and the provider client are.
\<close>

datatype pyexn = PyException (exc_class: string) (exc_str: pystr)

text \<open>The values of the dictionaries that the handlers return, and the dictionaries.\<close>

datatype pyvalue = Str pystr | Bool bool

type_synonym pydict = "(pystr \<times> pyvalue) list"

subsection \<open>\<open>str.isspace\<close>, \<open>str.strip\<close>, \<open>str.join\<close>\<close>

text \<open>The code points that CPython's \<open>str.strip()\<close> removes (those with \<open>isspace()\<close> true).\<close>

definition isspace :: "codepoint \<Rightarrow> bool" where
  "isspace c \<longleftrightarrow>
     (0x09 \<le> c \<and> c \<le> 0x0D) \<or> (0x1C \<le> c \<and> c \<le> 0x20) \<or> c = 0x85 \<or> c = 0xA0 \<or>
     c = 0x1680 \<or> (0x2000 \<le> c \<and> c \<le> 0x200A) \<or> c = 0x2028 \<or> c = 0x2029 \<or>
     c = 0x202F \<or> c = 0x205F \<or> c = 0x3000"

definition strip :: "pystr \<Rightarrow> pystr" where
  "strip s = rev (dropWhile isspace (rev (dropWhile isspace s)))"

fun join :: "pystr \<Rightarrow> pystr list \<Rightarrow> pystr" where
  "join sep [] = []"
| "join sep [x] = x"
| "join sep (x # y # ys) = x @ sep @ join sep (y # ys)"

subsection \<open>\<open>int(str)\<close>\<close>

text \<open>
  The built-in \<open>int\<close> on a string, base 10, as CPython 3.11 does it (Unicode 14.0, the
  default limit of 4300 digits). Every character from U+007F on is replaced first: white
  space by a blank, a decimal digit of any script by its ASCII digit; any other such
  character makes the string invalid. Then the blank and the characters U+0009 to U+000D
  are skipped at both ends (the separators U+001C to U+001F are not), an optional sign is
  read, and then decimal digits, where single underscores may stand between digits. A
  number of more than 4300 digits is refused. Every refusal is a \<open>ValueError\<close>, and \<open>None\<close>
  stands for it.
\<close>

text \<open>The code points with decimal digit value 0; the nine that follow each are 1 to 9.\<close>

definition decimal_zeros :: "codepoint list" where
  "decimal_zeros =
     [0x30, 0x660, 0x6F0, 0x7C0, 0x966, 0x9E6, 0xA66, 0xAE6, 0xB66, 0xBE6, 0xC66, 0xCE6,
       0xD66, 0xDE6, 0xE50, 0xED0, 0xF20, 0x1040, 0x1090, 0x17E0, 0x1810, 0x1946, 0x19D0,
       0x1A80, 0x1A90, 0x1B50, 0x1BB0, 0x1C40, 0x1C50, 0xA620, 0xA8D0, 0xA900, 0xA9D0,
       0xA9F0, 0xAA50, 0xABF0, 0xFF10, 0x104A0, 0x10D30, 0x11066, 0x110F0, 0x11136,
       0x111D0, 0x112F0, 0x11450, 0x114D0, 0x11650, 0x116C0, 0x11730, 0x118E0, 0x11950,
       0x11C50, 0x11D50, 0x11DA0, 0x16A60, 0x16AC0, 0x16B50, 0x1D7CE, 0x1D7D8, 0x1D7E2,
       0x1D7EC, 0x1D7F6, 0x1E140, 0x1E2F0, 0x1E950, 0x1FBF0]"

definition unicode_decimal :: "codepoint \<Rightarrow> nat option" where
  "unicode_decimal c =
     (case find (\<lambda>z. z \<le> c \<and> c < z + 10) decimal_zeros of
        None \<Rightarrow> None
      | Some z \<Rightarrow> Some (c - z))"

definition to_ascii :: "codepoint \<Rightarrow> codepoint option" where
  "to_ascii c =
     (if c < 127 then Some c
      else if isspace c then Some 0x20
      else (case unicode_decimal c of None \<Rightarrow> None | Some d \<Rightarrow> Some (0x30 + d)))"

fun transform_to_ascii :: "pystr \<Rightarrow> pystr option" where
  "transform_to_ascii [] = Some []"
| "transform_to_ascii (c # cs) =
     (case to_ascii c of
        None \<Rightarrow> None
      | Some a \<Rightarrow> (case transform_to_ascii cs of None \<Rightarrow> None | Some as \<Rightarrow> Some (a # as)))"

definition ascii_space :: "codepoint \<Rightarrow> bool" where
  "ascii_space c \<longleftrightarrow> (0x09 \<le> c \<and> c \<le> 0x0D) \<or> c = 0x20"

definition isdigit :: "codepoint \<Rightarrow> bool" where
  "isdigit c \<longleftrightarrow> 0x30 \<le> c \<and> c \<le> 0x39"

fun digits :: "nat \<Rightarrow> pystr \<Rightarrow> nat option" where
  "digits acc [] = Some acc"
| "digits acc [c] = (if isdigit c then Some (acc * 10 + (c - 0x30)) else None)"
| "digits acc (c # d # cs) =
     (if isdigit c then
        (if d = 0x5F then
           (case cs of [] \<Rightarrow> None
            | e # es \<Rightarrow> if isdigit e then digits (acc * 10 + (c - 0x30)) cs else None)
         else digits (acc * 10 + (c - 0x30)) (d # cs))
      else None)"

definition py_int :: "pystr \<Rightarrow> int option" where
  "py_int s =
     (case transform_to_ascii s of
        None \<Rightarrow> None
      | Some a \<Rightarrow>
          (let t = rev (dropWhile ascii_space (rev (dropWhile ascii_space a)));
               negative = (case t of [] \<Rightarrow> False | c # cs \<Rightarrow> c = 0x2D);
               ds = (case t of [] \<Rightarrow> [] | c # cs \<Rightarrow> if c = 0x2D \<or> c = 0x2B then cs else t)
           in if ds = [] \<or> 4300 < length (filter isdigit ds) then None
              else (case digits 0 ds of
                      None \<Rightarrow> None
                    | Some n \<Rightarrow> Some (if negative then - int n else int n))))"

subsection \<open>\<open>bytes.decode("utf-8", errors="ignore")\<close>\<close>

text \<open>
  CPython's UTF-8 decoder with the \<open>ignore\<close> error handler. A lead byte announces one to
  four bytes; \<open>0xC0\<close>, \<open>0xC1\<close> and everything from \<open>0xF5\<close> on start nothing. The second
  byte of a three- or four-byte form is restricted so that overlong forms, surrogates and
  values above U+10FFFF are refused. Where a sequence breaks off, the bytes read so far
  that belong to it are skipped and decoding resumes at the offending byte; a sequence cut
  short by the end of the input is skipped whole. No error is raised.
\<close>

definition is_cont :: "byte \<Rightarrow> bool" where
  "is_cont b \<longleftrightarrow> 0x80 \<le> unat b \<and> unat b < 0xC0"

definition second_ok :: "byte \<Rightarrow> byte \<Rightarrow> bool" where
  "second_ok ch ch2 \<longleftrightarrow>
     is_cont ch2 \<and>
     \<not> (unat ch = 0xE0 \<and> unat ch2 < 0xA0) \<and> \<not> (unat ch = 0xED \<and> 0xA0 \<le> unat ch2) \<and>
     \<not> (unat ch = 0xF0 \<and> unat ch2 < 0x90) \<and> \<not> (unat ch = 0xF4 \<and> 0x90 \<le> unat ch2)"

fun decode_utf8_ignore :: "byte list \<Rightarrow> pystr" where
  "decode_utf8_ignore [] = []"
| "decode_utf8_ignore (ch # bs) =
     (if unat ch < 0x80 then unat ch # decode_utf8_ignore bs
      else if unat ch < 0xC2 then decode_utf8_ignore bs
      else if unat ch < 0xE0 then
        (case bs of
           [] \<Rightarrow> []
         | ch2 # bs2 \<Rightarrow>
             if is_cont ch2
             then ((unat ch - 0xC0) * 64 + (unat ch2 - 0x80)) # decode_utf8_ignore bs2
             else decode_utf8_ignore bs)
      else if unat ch < 0xF0 then
        (case bs of
           [] \<Rightarrow> []
         | ch2 # bs2 \<Rightarrow>
             if \<not> second_ok ch ch2 then decode_utf8_ignore bs
             else (case bs2 of
                     [] \<Rightarrow> []
                   | ch3 # bs3 \<Rightarrow>
                       if is_cont ch3
                       then ((unat ch - 0xE0) * 4096 + (unat ch2 - 0x80) * 64 + (unat ch3 - 0x80))
                              # decode_utf8_ignore bs3
                       else decode_utf8_ignore bs2))
      else if unat ch < 0xF5 then
        (case bs of
           [] \<Rightarrow> []
         | ch2 # bs2 \<Rightarrow>
             if \<not> second_ok ch ch2 then decode_utf8_ignore bs
             else (case bs2 of
                     [] \<Rightarrow> []
                   | ch3 # bs3 \<Rightarrow>
                       if \<not> is_cont ch3 then decode_utf8_ignore bs2
                       else (case bs3 of
                               [] \<Rightarrow> []
                             | ch4 # bs4 \<Rightarrow>
                                 if is_cont ch4
                                 then ((unat ch - 0xF0) * 262144 + (unat ch2 - 0x80) * 4096
                                         + (unat ch3 - 0x80) * 64 + (unat ch4 - 0x80))
                                        # decode_utf8_ignore bs4
                                 else decode_utf8_ignore bs3)))
      else decode_utf8_ignore bs)"

text \<open>
  The UTF-8 encoding of a string, used to state what the decoder keeps. Surrogates and
  values above U+10FFFF have no encoding.
\<close>

definition is_scalar :: "codepoint \<Rightarrow> bool" where
  "is_scalar c \<longleftrightarrow> c < 0xD800 \<or> (0xE000 \<le> c \<and> c < 0x110000)"

definition encode_cp :: "codepoint \<Rightarrow> byte list" where
  "encode_cp c =
     (if c < 0x80 then [of_nat c]
      else if c < 0x800 then [of_nat (0xC0 + c div 64), of_nat (0x80 + c mod 64)]
      else if c < 0x10000 then
        [of_nat (0xE0 + c div 4096), of_nat (0x80 + c div 64 mod 64), of_nat (0x80 + c mod 64)]
      else
        [of_nat (0xF0 + c div 262144), of_nat (0x80 + c div 4096 mod 64),
         of_nat (0x80 + c div 64 mod 64), of_nat (0x80 + c mod 64)])"

definition encode_utf8 :: "pystr \<Rightarrow> byte list" where
  "encode_utf8 s = concat (map encode_cp s)"

text \<open>
  One step of the decoder on \<open>bs\<close>: it takes the bytes \<open>pre\<close> off the front and goes on with
  \<open>rest\<close>; either \<open>pre\<close> is skipped, and then all its bytes but the first are continuation
  bytes, or it is the encoding of the one character produced.
\<close>

definition decode_step :: "byte list \<Rightarrow> byte list \<Rightarrow> byte list \<Rightarrow> bool" where
  "decode_step bs pre rest \<longleftrightarrow>
     bs = pre @ rest \<and> pre \<noteq> [] \<and>
     (decode_utf8_ignore bs = decode_utf8_ignore rest \<and> list_all is_cont (tl pre) \<or>
      (\<exists>c. decode_utf8_ignore bs = c # decode_utf8_ignore rest \<and> encode_cp c = pre \<and> is_scalar c))"

section \<open>Configuration read at start-up\<close>

text \<open>
  The module reads the process environment once, when it is imported. \<open>environ\<close> is the
  environment after \<open>load_dotenv()\<close>; \<open>os.getenv(k, d)\<close> is the value of \<open>k\<close>, or \<open>d\<close>
  when \<open>k\<close> is unset. A variable that is set to the empty string stays empty.
\<close>

record config =
  GEMINI_API_KEY :: pystr
  GEMINI_MODEL :: pystr
  SMTP_HOST :: pystr
  SMTP_PORT :: int
  SMTP_USER :: pystr
  SMTP_PASS :: pystr
  FROM_EMAIL :: pystr

definition getenv :: "(pystr \<rightharpoonup> pystr) \<Rightarrow> pystr \<Rightarrow> pystr \<Rightarrow> pystr" where
  "getenv environ k d = (case environ k of None \<Rightarrow> d | Some v \<Rightarrow> v)"

text \<open>
  What stops the module from loading: the \<open>RuntimeError\<close> of the source with its message,
  or the \<open>ValueError\<close> of \<open>int\<close>, given here with the string that \<open>int\<close> refused (its
  message is not modelled).
\<close>

datatype startup_error = RuntimeError pystr | ValueError pystr

definition load_config :: "(pystr \<rightharpoonup> pystr) \<Rightarrow> startup_error + config" where
  "load_config environ =
     (case environ (lit ''GEMINI_API_KEY'') of
        None \<Rightarrow> Inl (RuntimeError (lit ''GEMINI_API_KEY not set (put it in backend/.env)''))
      | Some key \<Rightarrow>
          if key = [] then
            Inl (RuntimeError (lit ''GEMINI_API_KEY not set (put it in backend/.env)''))
          else
            (case py_int (getenv environ (lit ''SMTP_PORT'') (lit ''587'')) of
               None \<Rightarrow> Inl (ValueError (getenv environ (lit ''SMTP_PORT'') (lit ''587'')))
             | Some port \<Rightarrow>
                 Inr \<lparr> GEMINI_API_KEY = key,
                       GEMINI_MODEL = getenv environ (lit ''GEMINI_MODEL'') (lit ''gemini-1.5-flash''),
                       SMTP_HOST = getenv environ (lit ''SMTP_HOST'') (lit ''smtp.gmail.com''),
                       SMTP_PORT = port,
                       SMTP_USER = getenv environ (lit ''SMTP_USER'') [],
                       SMTP_PASS = getenv environ (lit ''SMTP_PASS'') [],
                       FROM_EMAIL = getenv environ (lit ''FROM_EMAIL'')
                                      (getenv environ (lit ''SMTP_USER'') []) \<rparr>))"

definition SYSTEM_PROMPT :: pystr where
  \<open>SYSTEM_PROMPT =
     lit ''You are a professional meeting minutes assistant. '' @
     lit ''Your job is to extract and clearly present the most important information from meeting transcripts. '' @
     lit ''Always use concise and unambiguous language. '' @
     lit ''\<newline>\<newline>Required Output Format (in clean Markdown):\<newline>'' @
     lit ''### Overview\<newline>'' @
     lit ''- One or two sentences summarizing the overall purpose of the meeting.\<newline>\<newline>'' @
     lit ''### Key Points\<newline>'' @
     lit ''- Bullet list of the most relevant discussion items (short, factual, no repetition).\<newline>\<newline>'' @
     lit ''### Decisions\<newline>'' @
     lit ''- List decisions made, including *who* made the decision.\<newline>\<newline>'' @
     lit ''### Action Items\<newline>'' @
     lit ''- Format each action item as: **[Owner]:** [Task] *(Due: [date if mentioned, otherwise '' @
     [0x27] @ lit ''TBD'' @ [0x27] @ lit ''])*\<newline>\<newline>'' @
     lit ''### Risks/Dependencies\<newline>'' @
     lit ''- Mention potential risks, blockers, or dependencies (if none, write '' @
     [0x27] @ lit ''None identified'' @ [0x27] @ lit '').\<newline>\<newline>'' @
     lit ''### Next Steps\<newline>'' @
     lit ''- List follow-up actions or upcoming events.\<newline>\<newline>'' @
     lit ''If the user provides a custom instruction, strictly follow it while keeping output structured and precise.''\<close>

section \<open>The outside world\<close>

text \<open>
  What the handlers pass to the libraries is recorded as a list of events, in order; what
  the libraries answer is given by a \<open>world\<close>. A call that raises answers with the
  exception.
\<close>

text \<open>
  The object that \<open>generate_content\<close> returns, as far as the handlers look at it: reading
  its attribute \<open>text\<close> finds no such attribute, or yields \<open>None\<close> or a string, or raises
  an exception other than \<open>AttributeError\<close>.
\<close>

datatype gen_response = NoTextAttr | TextAttr "pystr option" | TextRaises pyexn

record EmailMessage =
  Subject :: "pystr option"
  From :: pystr
  To :: pystr
  content :: pystr
  alternative :: "pystr \<times> pystr"

datatype event =
    GenerateContent pystr pystr
  | SMTP pystr int
  | Starttls
  | Login pystr pystr
  | SendMessage EmailMessage
  | SMTPExit

record world =
  generate_content :: "pystr \<Rightarrow> pystr \<Rightarrow> pyexn + gen_response"
  validate_email :: "pystr \<Rightarrow> pystr option"
  message_error :: "EmailMessage \<Rightarrow> pyexn option"
  smtp_connect :: "pystr \<Rightarrow> int \<Rightarrow> pyexn option"
  smtp_starttls :: "pyexn option"
  smtp_login :: "pystr \<Rightarrow> pystr \<Rightarrow> pyexn option"
  smtp_send_message :: "EmailMessage \<Rightarrow> pyexn option"
  smtp_exit :: "pyexn option"

text \<open>
  \<^item> \<open>generate_content w m c\<close>: \<open>genai.GenerativeModel(m).generate_content(c)\<close>.
  \<^item> \<open>validate_email w a\<close>: pydantic's \<open>EmailStr\<close> on the string \<open>a\<close>; \<open>None\<close> when \<open>a\<close> is
    refused, otherwise the address as the handler receives it.
  \<^item> \<open>message_error w m\<close>: the exception, if any, that the \<open>email\<close> package raises while
    the message is put together from the values in \<open>m\<close> (a header value with a line
    break in it, say).
  \<^item> \<open>smtp_connect w h p\<close>: \<open>smtplib.SMTP(h, p)\<close>; then \<open>starttls()\<close>, \<open>login(u, p)\<close>,
    \<open>send_message(msg)\<close>, and the \<open>__exit__\<close> of the \<open>with\<close> statement, which sends \<open>QUIT\<close>
    and closes the connection.
\<close>

section \<open>The handlers\<close>

record SummarizeIn =
  transcript :: pystr
  prompt :: pystr

record EmailIn =
  summary :: pystr
  recipients :: "pystr list"
  subject :: "pystr option"

definition health :: pydict where
  "health = [(lit ''status'', Str (lit ''ok''))]"

text \<open>
  \<open>getattr(response, "text", None)\<close>: the default stands in for a missing attribute only.
\<close>

definition getattr_text :: "gen_response \<Rightarrow> pyexn + pystr option" where
  "getattr_text response =
     (case response of
        NoTextAttr \<Rightarrow> Inr None
      | TextAttr v \<Rightarrow> Inr v
      | TextRaises e \<Rightarrow> Inl e)"

text \<open>
  \<open>response.text.strip() if getattr(response, "text", None) else "[no summary returned]"\<close>,
  the expression both summarising handlers end with. \<open>None\<close> and the empty string are
  false in Python, every other string is true.
\<close>

definition summary_text :: "gen_response \<Rightarrow> pyexn + pystr" where
  "summary_text response =
     (case getattr_text response of
        Inl e \<Rightarrow> Inl e
      | Inr None \<Rightarrow> Inr (lit ''[no summary returned]'')
      | Inr (Some t) \<Rightarrow> if t \<noteq> [] then Inr (strip t) else Inr (lit ''[no summary returned]''))"

definition summarize :: "config \<Rightarrow> world \<Rightarrow> SummarizeIn \<Rightarrow> (pyexn + pydict) \<times> event list" where
  "summarize cfg w body =
     (let user_content =
            lit ''Instruction: '' @ prompt body @ lit ''\<newline>\<newline>Transcript:\<newline>'' @ transcript body
      in case generate_content w (GEMINI_MODEL cfg) user_content of
           Inl e \<Rightarrow> (Inl e, [GenerateContent (GEMINI_MODEL cfg) user_content])
         | Inr response \<Rightarrow>
             (case summary_text response of
                Inl e \<Rightarrow> (Inl e, [GenerateContent (GEMINI_MODEL cfg) user_content])
              | Inr t \<Rightarrow>
                  (Inr [(lit ''summary'', Str t)], [GenerateContent (GEMINI_MODEL cfg) user_content])))"

definition upload_and_summarize ::
  "config \<Rightarrow> world \<Rightarrow> byte list \<Rightarrow> pystr \<Rightarrow> (pyexn + pydict) \<times> event list" where
  "upload_and_summarize cfg w content_bytes p =
     (let transcript' = decode_utf8_ignore content_bytes;
          user_content =
            lit ''Instruction: '' @ p @ lit ''\<newline>\<newline>Transcript:\<newline>'' @ transcript'
      in case generate_content w (GEMINI_MODEL cfg) user_content of
           Inl e \<Rightarrow> (Inl e, [GenerateContent (GEMINI_MODEL cfg) user_content])
         | Inr response \<Rightarrow>
             (case summary_text response of
                Inl e \<Rightarrow> (Inl e, [GenerateContent (GEMINI_MODEL cfg) user_content])
              | Inr t \<Rightarrow>
                  (Inr [(lit ''summary'', Str t)], [GenerateContent (GEMINI_MODEL cfg) user_content])))"

text \<open>
  The \<open>with smtplib.SMTP(...) as s:\<close> statement of \<open>send_email\<close>. Its value is the exception
  that leaves the statement, if any. When the constructor raises, the block is not entered.
  Otherwise \<open>__exit__\<close> runs whether the block raised or not, and an exception of its own
  replaces the one of the block.
\<close>

definition smtp_block :: "config \<Rightarrow> world \<Rightarrow> EmailMessage \<Rightarrow> pyexn option \<times> event list" where
  "smtp_block cfg w msg =
     (case smtp_starttls w of
        Some e \<Rightarrow> (Some e, [Starttls])
      | None \<Rightarrow>
          (case smtp_login w (SMTP_USER cfg) (SMTP_PASS cfg) of
             Some e \<Rightarrow> (Some e, [Starttls, Login (SMTP_USER cfg) (SMTP_PASS cfg)])
           | None \<Rightarrow>
               (case smtp_send_message w msg of
                  Some e \<Rightarrow>
                    (Some e, [Starttls, Login (SMTP_USER cfg) (SMTP_PASS cfg), SendMessage msg])
                | None \<Rightarrow>
                    (None, [Starttls, Login (SMTP_USER cfg) (SMTP_PASS cfg), SendMessage msg]))))"

definition smtp_with :: "config \<Rightarrow> world \<Rightarrow> EmailMessage \<Rightarrow> pyexn option \<times> event list" where
  "smtp_with cfg w msg =
     (case smtp_connect w (SMTP_HOST cfg) (SMTP_PORT cfg) of
        Some e \<Rightarrow> (Some e, [SMTP (SMTP_HOST cfg) (SMTP_PORT cfg)])
      | None \<Rightarrow>
          (case smtp_block cfg w msg of
             (raised, evs) \<Rightarrow>
               ((case smtp_exit w of Some e \<Rightarrow> Some e | None \<Rightarrow> raised),
                SMTP (SMTP_HOST cfg) (SMTP_PORT cfg) # evs @ [SMTPExit])))"

text \<open>
  The message that \<open>send_email\<close> puts together: the three headers, the plain-text body
  given to \<open>set_content\<close>, and the body and subtype given to \<open>add_alternative\<close>.
\<close>

definition build_message :: "config \<Rightarrow> EmailIn \<Rightarrow> EmailMessage" where
  \<open>build_message cfg body =
     \<lparr> Subject = subject body,
       From = FROM_EMAIL cfg,
       To = join (lit '', '') (recipients body),
       content = summary body,
       alternative =
         (lit ''<html><body><pre style="font-family: ui-monospace, monospace;">'' @
          summary body @ lit ''</pre></body></html>'', lit ''html'') \<rparr>\<close>

text \<open>
  \<open>all([SMTP_HOST, SMTP_PORT, SMTP_USER, SMTP_PASS, FROM_EMAIL])\<close>: a string is true when
  it is not empty, an integer when it is not zero. The message is put together outside the
  \<open>try\<close> statement, the SMTP session inside it.
\<close>

definition send_email :: "config \<Rightarrow> world \<Rightarrow> EmailIn \<Rightarrow> (pyexn + pydict) \<times> event list" where
  "send_email cfg w body =
     (if \<not> list_all (\<lambda>b. b)
            [SMTP_HOST cfg \<noteq> [], SMTP_PORT cfg \<noteq> 0, SMTP_USER cfg \<noteq> [], SMTP_PASS cfg \<noteq> [],
             FROM_EMAIL cfg \<noteq> []]
      then (Inr [(lit ''ok'', Bool False),
                 (lit ''error'', Str (lit ''SMTP not configured on server.''))], [])
      else
        (case message_error w (build_message cfg body) of
           Some e \<Rightarrow> (Inl e, [])
         | None \<Rightarrow>
             (case smtp_with cfg w (build_message cfg body) of
                (Some e, evs) \<Rightarrow>
                  (Inr [(lit ''ok'', Bool False), (lit ''error'', Str (exc_str e))], evs)
              | (None, evs) \<Rightarrow> (Inr [(lit ''ok'', Bool True)], evs))))"

section \<open>The application\<close>

text \<open>
  FastAPI in front of the handlers: a body is checked against the handler's model before
  the handler is called and refused with status 422 when it does not fit; the dictionary a
  handler returns is sent with status 200, and an exception that leaves a handler becomes
  status 500. A request to \<open>/email\<close> arrives with its recipients as plain strings; its
  subject is missing (\<open>None\<close>), or \<open>null\<close>, or a string. The upload's \<open>prompt\<close> field may be
  missing or empty.
\<close>

record EmailRequest =
  req_summary :: pystr
  req_recipients :: "pystr list"
  req_subject :: "pystr option option"

datatype request =
    GET_health
  | POST_summarize SummarizeIn
  | POST_upload_and_summarize "byte list" "pystr option"
  | POST_email EmailRequest

datatype http_response = HTTP_200 pydict | HTTP_422 | HTTP_500 pyexn

fun validate_all :: "(pystr \<Rightarrow> pystr option) \<Rightarrow> pystr list \<Rightarrow> pystr list option" where
  "validate_all v [] = Some []"
| "validate_all v (a # as) =
     (case v a of
        None \<Rightarrow> None
      | Some a' \<Rightarrow> (case validate_all v as of None \<Rightarrow> None | Some as' \<Rightarrow> Some (a' # as')))"

definition parse_EmailIn :: "world \<Rightarrow> EmailRequest \<Rightarrow> EmailIn option" where
  "parse_EmailIn w r =
     (case validate_all (validate_email w) (req_recipients r) of
        None \<Rightarrow> None
      | Some rs \<Rightarrow>
          Some \<lparr> summary = req_summary r,
                 recipients = rs,
                 subject = (case req_subject r of None \<Rightarrow> Some (lit ''Meeting Summary'') | Some v \<Rightarrow> v) \<rparr>)"

text \<open>
  \<open>prompt: str = Form("Summarize the meeting and extract action items.")\<close>: FastAPI takes
  a form field that is missing or empty as not given and passes the default.
\<close>

definition form_prompt :: "pystr option \<Rightarrow> pystr" where
  "form_prompt p =
     (case p of
        None \<Rightarrow> lit ''Summarize the meeting and extract action items.''
      | Some p' \<Rightarrow> if p' = [] then lit ''Summarize the meeting and extract action items.'' else p')"

definition respond :: "(pyexn + pydict) \<times> event list \<Rightarrow> http_response \<times> event list" where
  "respond r = (case r of (Inl e, evs) \<Rightarrow> (HTTP_500 e, evs) | (Inr d, evs) \<Rightarrow> (HTTP_200 d, evs))"

definition app :: "config \<Rightarrow> world \<Rightarrow> request \<Rightarrow> http_response \<times> event list" where
  "app cfg w req =
     (case req of
        GET_health \<Rightarrow> (HTTP_200 health, [])
      | POST_summarize body \<Rightarrow> respond (summarize cfg w body)
      | POST_upload_and_summarize content_bytes p \<Rightarrow>
          respond (upload_and_summarize cfg w content_bytes (form_prompt p))
      | POST_email r \<Rightarrow>
          (case parse_EmailIn w r of
             None \<Rightarrow> (HTTP_422, [])
           | Some body \<Rightarrow> respond (send_email cfg w body)))"

section \<open>Test doubles and sample inputs\<close>

text \<open>
  A world whose provider always gives \<open>answer\<close>, whose address check accepts the strings
  with an at sign in them, and whose SMTP server accepts everything except that \<open>login\<close>
  ends as \<open>login_result\<close> says.
\<close>

definition mock_world :: "pyexn + gen_response \<Rightarrow> pyexn option \<Rightarrow> world" where
  "mock_world answer login_result =
     \<lparr> generate_content = (\<lambda>m c. answer),
       validate_email = (\<lambda>a. if 0x40 \<in> set a then Some a else None),
       message_error = (\<lambda>m. None),
       smtp_connect = (\<lambda>h p. None),
       smtp_starttls = None,
       smtp_login = (\<lambda>u p. login_result),
       smtp_send_message = (\<lambda>m. None),
       smtp_exit = None \<rparr>"

text \<open>An environment with the API key, the SMTP user and the SMTP password, and nothing else.\<close>

definition sample_environ :: "pystr \<rightharpoonup> pystr" where
  "sample_environ =
     map_of [(lit ''GEMINI_API_KEY'', lit ''k3y''),
             (lit ''SMTP_USER'', lit ''bot@example.org''),
             (lit ''SMTP_PASS'', lit ''s3cret'')]"

definition sample_config :: config where
  "sample_config =
     \<lparr> GEMINI_API_KEY = lit ''k3y'',
       GEMINI_MODEL = lit ''gemini-1.5-flash'',
       SMTP_HOST = lit ''smtp.gmail.com'',
       SMTP_PORT = 587,
       SMTP_USER = lit ''bot@example.org'',
       SMTP_PASS = lit ''s3cret'',
       FROM_EMAIL = lit ''bot@example.org'' \<rparr>"

text \<open>An environment with the API key only, and the configuration read from it.\<close>

definition bare_environ :: "pystr \<rightharpoonup> pystr" where
  "bare_environ = map_of [(lit ''GEMINI_API_KEY'', lit ''k3y'')]"

definition bare_config :: config where
  "bare_config =
     \<lparr> GEMINI_API_KEY = lit ''k3y'',
       GEMINI_MODEL = lit ''gemini-1.5-flash'',
       SMTP_HOST = lit ''smtp.gmail.com'',
       SMTP_PORT = 587,
       SMTP_USER = [],
       SMTP_PASS = [],
       FROM_EMAIL = [] \<rparr>"

definition sample_email :: EmailIn where
  "sample_email =
     \<lparr> summary = lit ''<b>Q&A</b>'',
       recipients = [lit ''ann@example.org'', lit ''bob@example.org''],
       subject = Some (lit ''Meeting Summary'') \<rparr>"

definition sample_message :: EmailMessage where
  \<open>sample_message =
     \<lparr> Subject = Some (lit ''Meeting Summary''),
       From = lit ''bot@example.org'',
       To = lit ''ann@example.org, bob@example.org'',
       content = lit ''<b>Q&A</b>'',
       alternative =
         (lit ''<html><body><pre style="font-family: ui-monospace, monospace;"><b>Q&A</b></pre></body></html>'',
          lit ''html'') \<rparr>\<close>

definition sample_summarize :: SummarizeIn where
  "sample_summarize =
     \<lparr> transcript = lit ''Alice: ship by Friday.'', prompt = lit ''List action items'' \<rparr>"

text \<open>
  An upload of eight bytes: \<open>A\<close>, a lead byte \<open>0xC3\<close> that \<open>B\<close> does not continue, \<open>B\<close>, a
  stray \<open>0xFF\<close>, \<open>0xC3 0xA9\<close>, which encodes U+00E9, and \<open>0xE2 0x82\<close>, the start of a
  three-byte sequence that the end of the file cuts short.
\<close>

definition sample_upload :: "byte list" where
  "sample_upload = [0x41, 0xC3, 0x42, 0xFF, 0xC3, 0xA9, 0xE2, 0x82]"

definition sample_request :: EmailRequest where
  "sample_request =
     \<lparr> req_summary = lit ''<b>Q&A</b>'',
       req_recipients = [lit ''ann@example.org'', lit ''not-an-email''],
       req_subject = None \<rparr>"

text \<open>
  The same environment with the port written as U+0660, the Arabic-Indic digit zero, and
  the configuration read from it.
\<close>

definition zero_port_environ :: "pystr \<rightharpoonup> pystr" where
  "zero_port_environ =
     map_of [(lit ''GEMINI_API_KEY'', lit ''k3y''),
             (lit ''SMTP_USER'', lit ''bot@example.org''),
             (lit ''SMTP_PASS'', lit ''s3cret''),
             (lit ''SMTP_PORT'', [0x660])]"

definition zero_port_config :: config where
  "zero_port_config =
     \<lparr> GEMINI_API_KEY = lit ''k3y'',
       GEMINI_MODEL = lit ''gemini-1.5-flash'',
       SMTP_HOST = lit ''smtp.gmail.com'',
       SMTP_PORT = 0,
       SMTP_USER = lit ''bot@example.org'',
       SMTP_PASS = lit ''s3cret'',
       FROM_EMAIL = lit ''bot@example.org'' \<rparr>"

text \<open>
  The exception of a response without a text part: the provider's client raises a
  \<open>ValueError\<close> when \<open>response.text\<close> is read on it.
\<close>

definition no_valid_part :: pyexn where
  "no_valid_part = PyException ''ValueError'' (lit ''response.text requires a valid Part, but none were returned'')"

text \<open>
  \<open>str.splitlines()\<close>, and the check of the \<open>email\<close> package on a header value: a value of
  more than one line is refused with a \<open>ValueError\<close>. \<open>strict_world\<close> is the mock world with
  that check on the three headers.
\<close>

definition line_boundary :: "codepoint \<Rightarrow> bool" where
  "line_boundary c \<longleftrightarrow>
     (0x0A \<le> c \<and> c \<le> 0x0D) \<or> (0x1C \<le> c \<and> c \<le> 0x1E) \<or> c = 0x85 \<or> c = 0x2028 \<or> c = 0x2029"

fun splitlines_from :: "pystr \<Rightarrow> pystr \<Rightarrow> pystr list" where
  "splitlines_from cur [] = (if cur = [] then [] else [rev cur])"
| "splitlines_from cur (c # cs) =
     (if c = 0x0D then
        (case cs of
           [] \<Rightarrow> [rev cur]
         | d # ds \<Rightarrow>
             if d = 0x0A then rev cur # splitlines_from [] ds else rev cur # splitlines_from [] cs)
      else if line_boundary c then rev cur # splitlines_from [] cs
      else splitlines_from (c # cur) cs)"

definition splitlines :: "pystr \<Rightarrow> pystr list" where
  "splitlines s = splitlines_from [] s"

definition header_refused :: "pystr \<Rightarrow> bool" where
  "header_refused v \<longleftrightarrow> 1 < length (splitlines v)"

definition header_error :: pyexn where
  "header_error =
     PyException ''ValueError''
       (lit ''Header values may not contain linefeed or carriage return characters'')"

definition strict_headers :: "EmailMessage \<Rightarrow> pyexn option" where
  "strict_headers m =
     (if (case Subject m of None \<Rightarrow> False | Some v \<Rightarrow> header_refused v) \<or>
         header_refused (From m) \<or> header_refused (To m)
      then Some header_error else None)"

definition strict_world :: world where
  "strict_world = (mock_world (Inr NoTextAttr) None) \<lparr> message_error := strict_headers \<rparr>"

text \<open>A request whose subject carries a line feed and a second header line.\<close>

definition two_line_request :: EmailRequest where
  "two_line_request =
     \<lparr> req_summary = lit ''notes'',
       req_recipients = [lit ''ann@example.org''],
       req_subject = Some (Some (lit ''Minutes\<newline>Bcc: eve@example.org'')) \<rparr>"

definition two_line_email :: EmailIn where
  "two_line_email =
     \<lparr> summary = lit ''notes'',
       recipients = [lit ''ann@example.org''],
       subject = Some (lit ''Minutes\<newline>Bcc: eve@example.org'') \<rparr>"

definition bad_credentials :: pyexn where
  "bad_credentials = PyException ''SMTPAuthenticationError'' (lit ''(535, Bad credentials)'')"

section \<open>Properties\<close>

subsection \<open>Auxiliary facts\<close>

lemma lit_Nil: "lit [] = []"
  by (simp add: lit_def)

lemma lit_Cons: "lit (c # cs) = of_char c # lit cs"
  by (simp add: lit_def)

lemma summary_text_empty:
  "r = NoTextAttr \<or> r = TextAttr None \<or> r = TextAttr (Some []) \<Longrightarrow>
   summary_text r = Inr (lit ''[no summary returned]'')"
  by (auto simp: summary_text_def getattr_text_def)

lemma strip_all_space: "list_all isspace t \<Longrightarrow> strip t = []"
proof -
  assume "list_all isspace t"
  then have d: "dropWhile isspace t = []" by (induction t) simp_all
  show ?thesis unfolding strip_def d by simp
qed

lemma summary_text_nonempty: "t \<noteq> [] \<Longrightarrow> summary_text (TextAttr (Some t)) = Inr (strip t)"
  by (simp add: summary_text_def getattr_text_def)

lemma SYSTEM_PROMPT_hd: "\<exists>rest. SYSTEM_PROMPT = 0x59 # rest"
  unfolding SYSTEM_PROMPT_def by (simp add: lit_Cons)

lemma SYSTEM_PROMPT_long: "100 < length SYSTEM_PROMPT"
  unfolding SYSTEM_PROMPT_def by (simp add: lit_def)

lemma load_sample: "load_config sample_environ = Inr sample_config"
  by (simp add: load_config_def sample_environ_def sample_config_def getenv_def py_int_def
        to_ascii_def ascii_space_def isdigit_def lit_def)

lemma load_zero_port: "load_config zero_port_environ = Inr zero_port_config"
  by (simp add: load_config_def zero_port_environ_def zero_port_config_def getenv_def py_int_def
        to_ascii_def ascii_space_def isdigit_def isspace_def unicode_decimal_def decimal_zeros_def
        lit_def)

lemma py_int_587: "py_int (lit ''587'') = Some 587"
  by (simp add: py_int_def to_ascii_def ascii_space_def isdigit_def lit_def)

lemma validate_all_None:
  "a \<in> set as \<Longrightarrow> v a = None \<Longrightarrow> validate_all v as = None"
  by (induction as) (auto split: option.splits)

subsection \<open>The decoder\<close>

text \<open>
  What the decoder produces is the encoding of a scalar value read off the input, so each
  step either skips a non-empty run of bytes or turns a well-formed sequence into its
  character. Encoding what was decoded therefore gives a subsequence of the input, and a
  well-formed input is decoded as it is. Where no well-formed sequence starts, the first
  byte is dropped and decoding goes on behind it.
\<close>

lemma unat_byte_of_nat: "n < 256 \<Longrightarrow> unat (of_nat n :: byte) = n"
  by (simp add: unat_of_nat)

lemma split64: "s < 64 \<Longrightarrow> (a * 64 + s) div 64 = a \<and> (a * 64 + s) mod 64 = (s::nat)"
  by simp

lemma encode_one:
  "unat ch < 0x80 \<Longrightarrow> encode_cp (unat ch) = [ch]"
  by (simp add: encode_cp_def)

lemma encode_two:
  assumes "\<not> unat ch < 0xC2" and "unat ch < 0xE0" and "is_cont ch2"
  shows "encode_cp ((unat ch - 0xC0) * 64 + (unat ch2 - 0x80)) = [ch, ch2]"
proof -
  define q r where "q = unat ch - 0xC0" and "r = unat ch2 - 0x80"
  have q: "unat ch = 0xC0 + q" "2 \<le> q" "q < 32" and r: "unat ch2 = 0x80 + r" "r < 64"
    using assms by (auto simp: q_def r_def is_cont_def)
  have "encode_cp (q * 64 + r) = [of_nat (unat ch), of_nat (unat ch2)]"
    using q r by (simp add: encode_cp_def)
  then show ?thesis
    by (simp add: q_def r_def)
qed

lemma scalar_two:
  assumes "unat ch < 0xE0" and "is_cont ch2"
  shows "is_scalar ((unat ch - 0xC0) * 64 + (unat ch2 - 0x80))"
  using assms by (auto simp: is_scalar_def is_cont_def)

lemma encode_three:
  assumes "\<not> unat ch < 0xE0" and "unat ch < 0xF0" and "second_ok ch ch2" and "is_cont ch3"
  shows "encode_cp ((unat ch - 0xE0) * 4096 + (unat ch2 - 0x80) * 64 + (unat ch3 - 0x80)) = [ch, ch2, ch3]"
    and "is_scalar ((unat ch - 0xE0) * 4096 + (unat ch2 - 0x80) * 64 + (unat ch3 - 0x80))"
proof -
  define q r s where "q = unat ch - 0xE0" and "r = unat ch2 - 0x80" and "s = unat ch3 - 0x80"
  have q: "unat ch = 0xE0 + q" "q < 16" and r: "unat ch2 = 0x80 + r" "r < 64"
    and s: "unat ch3 = 0x80 + s" "s < 64"
    and z: "q = 0 \<longrightarrow> 32 \<le> r" "q = 13 \<longrightarrow> r < 32"
    using assms by (auto simp: q_def r_def s_def is_cont_def second_ok_def)
  have d: "(q * 4096 + r * 64 + s) div 4096 = q" "(q * 4096 + r * 64 + s) div 64 mod 64 = r"
    "(q * 4096 + r * 64 + s) mod 64 = s"
  proof -
    have e: "q * 4096 + r * 64 + s = (q * 64 + r) * 64 + s" by simp
    have f: "(q * 4096 + r * 64 + s) div 64 = q * 64 + r"
      unfolding e using split64 [OF s(2)] by blast
    show "(q * 4096 + r * 64 + s) mod 64 = s"
      unfolding e using split64 [OF s(2)] by blast
    show "(q * 4096 + r * 64 + s) div 64 mod 64 = r"
      unfolding f using split64 [OF r(2)] by blast
    have "(q * 4096 + r * 64 + s) div 4096 = (q * 4096 + r * 64 + s) div 64 div 64"
      by (simp add: div_mult2_eq [symmetric])
    then show "(q * 4096 + r * 64 + s) div 4096 = q"
      unfolding f using split64 [OF r(2)] by simp
  qed
  have lo: "0x800 \<le> q * 4096 + r * 64 + s" using z(1) by (cases "q = 0") simp_all
  have hi: "q * 4096 + r * 64 + s < 0x10000" using q(2) r(2) s(2) by simp
  have "encode_cp (q * 4096 + r * 64 + s) = [of_nat (unat ch), of_nat (unat ch2), of_nat (unat ch3)]"
    unfolding encode_cp_def using lo hi by (simp add: d q(1) r(1) s(1))
  then show "encode_cp ((unat ch - 0xE0) * 4096 + (unat ch2 - 0x80) * 64 + (unat ch3 - 0x80)) = [ch, ch2, ch3]"
    by (simp add: q_def r_def s_def)
  have "is_scalar (q * 4096 + r * 64 + s)"
    unfolding is_scalar_def using q(2) r(2) s(2) z(2) by (cases "q < 13"; cases "q = 13") simp_all
  then show "is_scalar ((unat ch - 0xE0) * 4096 + (unat ch2 - 0x80) * 64 + (unat ch3 - 0x80))"
    by (simp add: q_def r_def s_def)
qed

lemma encode_four:
  assumes "\<not> unat ch < 0xF0" and "unat ch < 0xF5" and "second_ok ch ch2" and "is_cont ch3"
    and "is_cont ch4"
  shows "encode_cp ((unat ch - 0xF0) * 262144 + (unat ch2 - 0x80) * 4096 + (unat ch3 - 0x80) * 64
           + (unat ch4 - 0x80)) = [ch, ch2, ch3, ch4]"
    and "is_scalar ((unat ch - 0xF0) * 262144 + (unat ch2 - 0x80) * 4096 + (unat ch3 - 0x80) * 64
           + (unat ch4 - 0x80))"
proof -
  define q r s t where "q = unat ch - 0xF0" and "r = unat ch2 - 0x80" and "s = unat ch3 - 0x80"
    and "t = unat ch4 - 0x80"
  have q: "unat ch = 0xF0 + q" "q < 5" and r: "unat ch2 = 0x80 + r" "r < 64"
    and s: "unat ch3 = 0x80 + s" "s < 64" and t: "unat ch4 = 0x80 + t" "t < 64"
    and z: "q = 0 \<longrightarrow> 16 \<le> r" "q = 4 \<longrightarrow> r < 16"
    using assms by (auto simp: q_def r_def s_def t_def is_cont_def second_ok_def)
  let ?c = "q * 262144 + r * 4096 + s * 64 + t"
  have d: "?c div 262144 = q" "?c div 4096 mod 64 = r" "?c div 64 mod 64 = s" "?c mod 64 = t"
  proof -
    have e: "?c = ((q * 64 + r) * 64 + s) * 64 + t" by simp
    have f: "?c div 64 = (q * 64 + r) * 64 + s"
      unfolding e using split64 [OF t(2)] by blast
    have g: "?c div 64 div 64 = q * 64 + r"
      unfolding f using split64 [OF s(2)] by blast
    show "?c mod 64 = t"
      unfolding e using split64 [OF t(2)] by blast
    show "?c div 64 mod 64 = s"
      unfolding f using split64 [OF s(2)] by blast
    have h: "?c div 4096 = ?c div 64 div 64"
      by (simp add: div_mult2_eq [symmetric])
    show "?c div 4096 mod 64 = r"
      unfolding h g using split64 [OF r(2)] by blast
    have "?c div 262144 = ?c div 64 div 64 div 64"
      by (simp add: div_mult2_eq [symmetric])
    then show "?c div 262144 = q"
      unfolding g using split64 [OF r(2)] by simp
  qed
  have lo: "0x10000 \<le> ?c" using z(1) by (cases "q = 0") simp_all
  have "encode_cp ?c = [of_nat (unat ch), of_nat (unat ch2), of_nat (unat ch3), of_nat (unat ch4)]"
    unfolding encode_cp_def using lo by (simp add: d q(1) r(1) s(1) t(1))
  then show "encode_cp ((unat ch - 0xF0) * 262144 + (unat ch2 - 0x80) * 4096 + (unat ch3 - 0x80) * 64
           + (unat ch4 - 0x80)) = [ch, ch2, ch3, ch4]"
    by (simp add: q_def r_def s_def t_def)
  have "is_scalar ?c"
    unfolding is_scalar_def using lo q(2) r(2) s(2) t(2) z(2) by (cases "q = 4") simp_all
  then show "is_scalar ((unat ch - 0xF0) * 262144 + (unat ch2 - 0x80) * 4096 + (unat ch3 - 0x80) * 64
           + (unat ch4 - 0x80))"
    by (simp add: q_def r_def s_def t_def)
qed

lemma encode_utf8_Cons: "encode_utf8 (c # s) = encode_cp c @ encode_utf8 s"
  by (simp add: encode_utf8_def)

lemma encode_utf8_Nil: "encode_utf8 [] = []"
  by (simp add: encode_utf8_def)

lemma decode_stepI_skip:
  "bs = pre @ rest \<Longrightarrow> pre \<noteq> [] \<Longrightarrow> list_all is_cont (tl pre) \<Longrightarrow>
   decode_utf8_ignore bs = decode_utf8_ignore rest \<Longrightarrow> \<exists>pre rest. decode_step bs pre rest"
  unfolding decode_step_def by blast

lemma decode_stepI_char:
  "bs = pre @ rest \<Longrightarrow> pre \<noteq> [] \<Longrightarrow> decode_utf8_ignore bs = c # decode_utf8_ignore rest \<Longrightarrow>
   encode_cp c = pre \<Longrightarrow> is_scalar c \<Longrightarrow> \<exists>pre rest. decode_step bs pre rest"
  unfolding decode_step_def by blast

lemma decode_has_step:
  assumes "bs \<noteq> []"
  shows "\<exists>pre rest. decode_step bs pre rest"
proof -
  obtain ch r1 where bs: "bs = ch # r1"
    using assms by (cases bs) auto
  have whole: "bs = bs @ []" "bs \<noteq> []"
    using assms by simp_all
  have first: "bs = [ch] @ r1" "[ch] \<noteq> []" "list_all is_cont (tl [ch])"
    by (simp_all add: bs)
  show ?thesis
  proof (cases "unat ch < 0x80")
    case True
    then have "decode_utf8_ignore bs = unat ch # decode_utf8_ignore r1"
      by (simp add: bs)
    moreover have "encode_cp (unat ch) = [ch]"
      using True by (rule encode_one)
    moreover have "is_scalar (unat ch)"
      unfolding is_scalar_def using True by linarith
    ultimately show ?thesis
      using first(1,2) by (intro decode_stepI_char)
  next
    case a: False
    show ?thesis
    proof (cases "unat ch < 0xC2 \<or> \<not> unat ch < 0xF5")
      case True
      with a have "decode_utf8_ignore bs = decode_utf8_ignore r1"
        by (auto simp: bs)
      with first show ?thesis
        by (rule decode_stepI_skip)
    next
      case False
      then have b: "\<not> unat ch < 0xC2" "unat ch < 0xF5" by simp_all
      show ?thesis
      proof (cases r1)
        case Nil
        have "decode_utf8_ignore bs = decode_utf8_ignore []"
          using a b by (simp add: bs Nil)
        moreover have "list_all is_cont (tl bs)"
          by (simp add: bs Nil)
        ultimately show ?thesis
          using whole by (intro decode_stepI_skip)
      next
        case r1: (Cons ch2 r2)
        show ?thesis
        proof (cases "unat ch < 0xE0")
          case two: True
          show ?thesis
          proof (cases "is_cont ch2")
            case True
            then have "decode_utf8_ignore bs =
                ((unat ch - 0xC0) * 64 + (unat ch2 - 0x80)) # decode_utf8_ignore r2"
              using a b two by (simp add: bs r1)
            moreover have "bs = [ch, ch2] @ r2" "[ch, ch2] \<noteq> []"
              by (simp_all add: bs r1)
            ultimately show ?thesis
              using encode_two [OF b(1) two True] scalar_two [OF two True]
              by (intro decode_stepI_char)
          next
            case False
            then have "decode_utf8_ignore bs = decode_utf8_ignore r1"
              using a b two by (simp add: bs r1)
            with first show ?thesis
              by (rule decode_stepI_skip)
          qed
        next
          case c: False
          show ?thesis
          proof (cases "second_ok ch ch2")
            case False
            then have "decode_utf8_ignore bs = decode_utf8_ignore r1"
              using a b c by (simp add: bs r1)
            with first show ?thesis
              by (rule decode_stepI_skip)
          next
            case so: True
            then have k2: "is_cont ch2"
              by (simp add: second_ok_def)
            have second: "bs = [ch, ch2] @ r2" "[ch, ch2] \<noteq> []" "list_all is_cont (tl [ch, ch2])"
              using k2 by (simp_all add: bs r1)
            show ?thesis
            proof (cases r2)
              case Nil
              have "decode_utf8_ignore bs = decode_utf8_ignore []"
                using a b c so by (simp add: bs r1 Nil)
              moreover have "list_all is_cont (tl bs)"
                using k2 by (simp add: bs r1 Nil)
              ultimately show ?thesis
                using whole by (intro decode_stepI_skip)
            next
              case r2: (Cons ch3 r3)
              show ?thesis
              proof (cases "is_cont ch3")
                case False
                then have "decode_utf8_ignore bs = decode_utf8_ignore r2"
                  using a b c so by (simp add: bs r1 r2)
                with second show ?thesis
                  by (rule decode_stepI_skip)
              next
                case c3: True
                have third: "bs = [ch, ch2, ch3] @ r3" "[ch, ch2, ch3] \<noteq> []"
                  "list_all is_cont (tl [ch, ch2, ch3])"
                  using k2 c3 by (simp_all add: bs r1 r2)
                show ?thesis
                proof (cases "unat ch < 0xF0")
                  case three: True
                  have "decode_utf8_ignore bs =
                      ((unat ch - 0xE0) * 4096 + (unat ch2 - 0x80) * 64 + (unat ch3 - 0x80))
                        # decode_utf8_ignore r3"
                    using a b c so c3 three by (simp add: bs r1 r2)
                  then show ?thesis
                    using third(1,2) encode_three [OF c three so c3]
                    by (intro decode_stepI_char)
                next
                  case d: False
                  show ?thesis
                  proof (cases r3)
                    case Nil
                    have "decode_utf8_ignore bs = decode_utf8_ignore []"
                      using a b c so c3 d by (simp add: bs r1 r2 Nil)
                    moreover have "list_all is_cont (tl bs)"
                      using k2 c3 by (simp add: bs r1 r2 Nil)
                    ultimately show ?thesis
                      using whole by (intro decode_stepI_skip)
                  next
                    case r3: (Cons ch4 r4)
                    show ?thesis
                    proof (cases "is_cont ch4")
                      case True
                      then have "decode_utf8_ignore bs =
                          ((unat ch - 0xF0) * 262144 + (unat ch2 - 0x80) * 4096
                             + (unat ch3 - 0x80) * 64 + (unat ch4 - 0x80)) # decode_utf8_ignore r4"
                        using a b c so c3 d by (simp add: bs r1 r2 r3)
                      moreover have "bs = [ch, ch2, ch3, ch4] @ r4" "[ch, ch2, ch3, ch4] \<noteq> []"
                        by (simp_all add: bs r1 r2 r3)
                      ultimately show ?thesis
                        using encode_four [OF d b(2) so c3 True]
                        by (intro decode_stepI_char)
                    next
                      case False
                      then have "decode_utf8_ignore bs = decode_utf8_ignore r3"
                        using a b c so c3 d by (simp add: bs r1 r2 r3)
                      with third show ?thesis
                        by (rule decode_stepI_skip)
                    qed
                  qed
                qed
              qed
            qed
          qed
        qed
      qed
    qed
  qed
qed

lemma decode_subseq: "subseq (encode_utf8 (decode_utf8_ignore bs)) bs"
proof (induction bs rule: length_induct)
  case (1 bs)
  show ?case
  proof (cases "bs = []")
    case True
    then show ?thesis by (simp add: encode_utf8_Nil)
  next
    case False
    then obtain pre rest where st: "decode_step bs pre rest"
      using decode_has_step by blast
    then have bs: "bs = pre @ rest" and "pre \<noteq> []"
      by (simp_all add: decode_step_def)
    then have "length rest < length bs" by simp
    with 1 have IH: "subseq (encode_utf8 (decode_utf8_ignore rest)) rest" by blast
    from st consider
        (skip) "decode_utf8_ignore bs = decode_utf8_ignore rest"
      | (char) c where "decode_utf8_ignore bs = c # decode_utf8_ignore rest" "encode_cp c = pre"
      unfolding decode_step_def by blast
    then show ?thesis
    proof cases
      case skip
      have "subseq (encode_utf8 (decode_utf8_ignore rest)) (pre @ rest)"
        using IH by (rule list_emb_append2)
      then show ?thesis using skip bs by simp
    next
      case char
      have "subseq (pre @ encode_utf8 (decode_utf8_ignore rest)) (pre @ rest)"
        using IH by (simp add: subseq_append')
      then show ?thesis using char bs by (simp add: encode_utf8_Cons)
    qed
  qed
qed

lemma decode_scalar: "list_all is_scalar (decode_utf8_ignore bs)"
proof (induction bs rule: length_induct)
  case (1 bs)
  show ?case
  proof (cases "bs = []")
    case True
    then show ?thesis by simp
  next
    case False
    then obtain pre rest where st: "decode_step bs pre rest"
      using decode_has_step by blast
    then have "bs = pre @ rest" and "pre \<noteq> []"
      by (simp_all add: decode_step_def)
    then have "length rest < length bs" by simp
    with 1 have IH: "list_all is_scalar (decode_utf8_ignore rest)" by blast
    from st consider
        (skip) "decode_utf8_ignore bs = decode_utf8_ignore rest"
      | (char) c where "decode_utf8_ignore bs = c # decode_utf8_ignore rest" "is_scalar c"
      unfolding decode_step_def by blast
    then show ?thesis
      using IH by cases simp_all
  qed
qed

lemma decode_encode_cp:
  assumes "is_scalar c"
  shows "decode_utf8_ignore (encode_cp c @ bs) = c # decode_utf8_ignore bs"
proof -
  define s r q p where "s = c mod 64" and "r = c div 64 mod 64" and "q = c div 4096 mod 64"
    and "p = c div 262144"
  have s: "s < 64" and r: "r < 64" and q: "q < 64" by (simp_all add: s_def r_def q_def)
  have c1: "c = (c div 64) * 64 + s" by (simp add: s_def)
  have c2: "c div 64 = (c div 4096) * 64 + r"
  proof -
    have "c div 4096 = c div 64 div 64" by (simp add: div_mult2_eq [symmetric])
    then show ?thesis by (simp add: r_def)
  qed
  have c3: "c div 4096 = p * 64 + q"
  proof -
    have "c div 262144 = c div 4096 div 64" by (simp add: div_mult2_eq [symmetric])
    then show ?thesis by (simp add: p_def q_def)
  qed
  have lim: "c < 0x110000" "c < 0xD800 \<or> 0xE000 \<le> c"
    using assms by (auto simp: is_scalar_def)
  consider (one) "c < 0x80" | (two) "0x80 \<le> c" "c < 0x800" | (three) "0x800 \<le> c" "c < 0x10000"
    | (four) "0x10000 \<le> c"
    by linarith
  then show ?thesis
  proof cases
    case one
    then have "unat (of_nat c :: byte) = c" by (simp add: unat_byte_of_nat)
    then show ?thesis using one by (simp add: encode_cp_def)
  next
    case two
    have d: "2 \<le> c div 64" "c div 64 < 32" using two c1 s by linarith+
    have u1: "unat (of_nat (0xC0 + c div 64) :: byte) = 0xC0 + c div 64"
      using d by (intro unat_byte_of_nat) linarith
    have u2: "unat (of_nat (0x80 + s) :: byte) = 0x80 + s"
      using s by (intro unat_byte_of_nat) linarith
    have e: "encode_cp c = [of_nat (0xC0 + c div 64), of_nat (0x80 + s)]"
      using two by (simp add: encode_cp_def s_def)
    have v: "(0xC0 + c div 64 - 0xC0) * 64 + (0x80 + s - 0x80) = c"
      using c1 by simp
    show ?thesis
      unfolding e using d s v by (simp add: u1 u2 is_cont_def del: of_nat_add)
  next
    case three
    have p0: "c div 4096 < 16" "c div 64 = (c div 4096) * 64 + r" using three c1 c2 s r by linarith+
    have lo: "c div 4096 = 0 \<longrightarrow> 32 \<le> r" using three c1 c2 s r by linarith
    have sur: "c div 4096 = 13 \<longrightarrow> r < 32" using lim three c1 c2 s r by linarith
    have u1: "unat (of_nat (0xE0 + c div 4096) :: byte) = 0xE0 + c div 4096"
      using p0 by (intro unat_byte_of_nat) linarith
    have u2: "unat (of_nat (0x80 + r) :: byte) = 0x80 + r"
      using r by (intro unat_byte_of_nat) linarith
    have u3: "unat (of_nat (0x80 + s) :: byte) = 0x80 + s"
      using s by (intro unat_byte_of_nat) linarith
    have e: "encode_cp c = [of_nat (0xE0 + c div 4096), of_nat (0x80 + r), of_nat (0x80 + s)]"
      using three by (simp add: encode_cp_def s_def r_def)
    have v: "(0xE0 + c div 4096 - 0xE0) * 4096 + (0x80 + r - 0x80) * 64 + (0x80 + s - 0x80) = c"
      using c1 c2 by simp
    have so: "second_ok (of_nat (0xE0 + c div 4096)) (of_nat (0x80 + r))"
      unfolding second_ok_def is_cont_def u1 u2 using p0 r lo sur by auto
    have k3: "is_cont (of_nat (0x80 + s))"
      unfolding is_cont_def u3 using s by simp
    have rng: "\<not> 0xE0 + c div 4096 < 0x80" "\<not> 0xE0 + c div 4096 < 0xC2"
      "\<not> 0xE0 + c div 4096 < 0xE0" "0xE0 + c div 4096 < 0xF0"
      using p0 by simp_all
    show ?thesis
      unfolding e using so k3 rng v by (simp add: u1 u2 u3 del: of_nat_add)
  next
    case four
    have p0: "p < 5" "c div 4096 = p * 64 + q" "c div 64 = (c div 4096) * 64 + r"
      using lim four c1 c2 c3 s r q by linarith+
    have lo: "p = 0 \<longrightarrow> 16 \<le> q" using four c1 c2 c3 s r q by linarith
    have hi: "p = 4 \<longrightarrow> q < 16" using lim c1 c2 c3 s r q by linarith
    have u1: "unat (of_nat (0xF0 + p) :: byte) = 0xF0 + p"
      using p0 by (intro unat_byte_of_nat) linarith
    have u2: "unat (of_nat (0x80 + q) :: byte) = 0x80 + q"
      using q by (intro unat_byte_of_nat) linarith
    have u3: "unat (of_nat (0x80 + r) :: byte) = 0x80 + r"
      using r by (intro unat_byte_of_nat) linarith
    have u4: "unat (of_nat (0x80 + s) :: byte) = 0x80 + s"
      using s by (intro unat_byte_of_nat) linarith
    have e: "encode_cp c = [of_nat (0xF0 + p), of_nat (0x80 + q), of_nat (0x80 + r), of_nat (0x80 + s)]"
      using four by (simp add: encode_cp_def s_def r_def q_def p_def)
    have v: "(0xF0 + p - 0xF0) * 262144 + (0x80 + q - 0x80) * 4096 + (0x80 + r - 0x80) * 64
               + (0x80 + s - 0x80) = c"
      using c1 c2 c3 by simp
    have so: "second_ok (of_nat (0xF0 + p)) (of_nat (0x80 + q))"
      unfolding second_ok_def is_cont_def u1 u2 using p0 q lo hi by auto
    have k3: "is_cont (of_nat (0x80 + r))"
      unfolding is_cont_def u3 using r by simp
    have k4: "is_cont (of_nat (0x80 + s))"
      unfolding is_cont_def u4 using s by simp
    have rng: "\<not> 0xF0 + p < 0x80" "\<not> 0xF0 + p < 0xC2"
      "\<not> 0xF0 + p < 0xE0" "\<not> 0xF0 + p < 0xF0" "0xF0 + p < 0xF5"
      using p0 by simp_all
    show ?thesis
      unfolding e using so k3 k4 rng v by (simp add: u1 u2 u3 u4 del: of_nat_add)
  qed
qed

lemma decode_encode: "list_all is_scalar s \<Longrightarrow> decode_utf8_ignore (encode_utf8 s) = s"
  by (induction s) (simp_all add: encode_utf8_Nil encode_utf8_Cons decode_encode_cp)

lemma decode_skip_cont:
  "list_all is_cont xs \<Longrightarrow> decode_utf8_ignore (xs @ rest) = decode_utf8_ignore rest"
  by (induction xs) (simp_all add: is_cont_def)

lemma decode_no_char:
  assumes "\<forall>c. is_scalar c \<longrightarrow> \<not> prefix (encode_cp c) (b # rest)"
  shows "decode_utf8_ignore (b # rest) = decode_utf8_ignore rest"
proof -
  obtain pre rest' where st: "decode_step (b # rest) pre rest'"
    using decode_has_step [of "b # rest"] by blast
  then have sp: "b # rest = pre @ rest'" and ne: "pre \<noteq> []"
    by (simp_all add: decode_step_def)
  have "\<not> (\<exists>c. encode_cp c = pre \<and> is_scalar c)"
    using assms sp by (metis prefixI)
  with st have sk: "decode_utf8_ignore (b # rest) = decode_utf8_ignore rest'"
    and co: "list_all is_cont (tl pre)"
    unfolding decode_step_def by blast+
  from sp ne have "rest = tl pre @ rest'"
    by (cases pre) simp_all
  then show ?thesis
    using sk decode_skip_cont [OF co] by simp
qed

lemma encode_cp_shape:
  assumes "is_scalar c"
  shows "(\<exists>b. encode_cp c = [b] \<and> unat b < 0x80) \<or>
         (\<exists>b b2 bs. encode_cp c = b # b2 # bs \<and> \<not> unat b < 0xC2 \<and> unat b < 0xF5 \<and> is_cont b2)"
proof -
  have m: "c mod 64 < 64" "c div 64 mod 64 < 64" "c div 4096 mod 64 < 64"
    by simp_all
  have c1: "c = (c div 64) * 64 + c mod 64" by simp
  have c2: "c = (c div 4096) * 4096 + c mod 4096" by simp
  have c3: "c = (c div 262144) * 262144 + c mod 262144" by simp
  have m2: "c mod 4096 < 4096" "c mod 262144 < 262144" by simp_all
  have lim: "c < 0x110000"
    using assms by (auto simp: is_scalar_def)
  consider (one) "c < 0x80" | (two) "0x80 \<le> c" "c < 0x800" | (three) "0x800 \<le> c" "c < 0x10000"
    | (four) "0x10000 \<le> c"
    by linarith
  then show ?thesis
  proof cases
    case one
    then have "encode_cp c = [of_nat c]" "unat (of_nat c :: byte) = c"
      by (simp_all add: encode_cp_def unat_byte_of_nat)
    with one show ?thesis by simp
  next
    case two
    have d: "2 \<le> c div 64" "c div 64 < 32" using two c1 m(1) by linarith+
    have u1: "unat (of_nat (0xC0 + c div 64) :: byte) = 0xC0 + c div 64"
      using d by (intro unat_byte_of_nat) linarith
    have u2: "unat (of_nat (0x80 + c mod 64) :: byte) = 0x80 + c mod 64"
      using m(1) by (intro unat_byte_of_nat) linarith
    have e: "encode_cp c = [of_nat (0xC0 + c div 64), of_nat (0x80 + c mod 64)]"
      using two by (simp add: encode_cp_def)
    have "\<not> unat (of_nat (0xC0 + c div 64) :: byte) < 0xC2"
      "unat (of_nat (0xC0 + c div 64) :: byte) < 0xF5"
      "is_cont (of_nat (0x80 + c mod 64))"
      unfolding is_cont_def u1 u2 using d m(1) by simp_all
    with e show ?thesis by blast
  next
    case three
    have d: "c div 4096 < 16" using three c2 m2(1) by linarith
    have u1: "unat (of_nat (0xE0 + c div 4096) :: byte) = 0xE0 + c div 4096"
      using d by (intro unat_byte_of_nat) linarith
    have u2: "unat (of_nat (0x80 + c div 64 mod 64) :: byte) = 0x80 + c div 64 mod 64"
      using m(2) by (intro unat_byte_of_nat) linarith
    have e: "encode_cp c = [of_nat (0xE0 + c div 4096), of_nat (0x80 + c div 64 mod 64),
        of_nat (0x80 + c mod 64)]"
      using three by (simp add: encode_cp_def)
    have "\<not> unat (of_nat (0xE0 + c div 4096) :: byte) < 0xC2"
      "unat (of_nat (0xE0 + c div 4096) :: byte) < 0xF5"
      "is_cont (of_nat (0x80 + c div 64 mod 64))"
      unfolding is_cont_def u1 u2 using d m(2) by simp_all
    with e show ?thesis by blast
  next
    case four
    have d: "c div 262144 < 5" using lim c3 m2(2) by linarith
    have u1: "unat (of_nat (0xF0 + c div 262144) :: byte) = 0xF0 + c div 262144"
      using d by (intro unat_byte_of_nat) linarith
    have u2: "unat (of_nat (0x80 + c div 4096 mod 64) :: byte) = 0x80 + c div 4096 mod 64"
      using m(3) by (intro unat_byte_of_nat) linarith
    have e: "encode_cp c = [of_nat (0xF0 + c div 262144), of_nat (0x80 + c div 4096 mod 64),
        of_nat (0x80 + c div 64 mod 64), of_nat (0x80 + c mod 64)]"
      using four by (simp add: encode_cp_def)
    have "\<not> unat (of_nat (0xF0 + c div 262144) :: byte) < 0xC2"
      "unat (of_nat (0xF0 + c div 262144) :: byte) < 0xF5"
      "is_cont (of_nat (0x80 + c div 4096 mod 64))"
      unfolding is_cont_def u1 u2 using d m(3) by simp_all
    with e show ?thesis by blast
  qed
qed

lemma no_char_bad_second:
  assumes "\<not> unat b < 0x80" and "\<not> is_cont b2"
  shows "\<forall>c. is_scalar c \<longrightarrow> \<not> prefix (encode_cp c) (b # b2 # rest)"
proof (intro allI impI notI)
  fix c
  assume "is_scalar c" and p: "prefix (encode_cp c) (b # b2 # rest)"
  from encode_cp_shape [OF this(1)] show False
  proof (elim disjE exE conjE)
    fix x
    assume "encode_cp c = [x]" "unat x < 0x80"
    with p assms(1) show False by simp
  next
    fix x x2 xs
    assume "encode_cp c = x # x2 # xs" "is_cont x2"
    with p assms(2) show False by simp
  qed
qed

lemma no_char_bad_lead:
  assumes "\<not> unat b < 0xF5"
  shows "\<forall>c. is_scalar c \<longrightarrow> \<not> prefix (encode_cp c) (b # rest)"
proof (intro allI impI notI)
  fix c
  assume "is_scalar c" and p: "prefix (encode_cp c) (b # rest)"
  from encode_cp_shape [OF this(1)] show False
  proof (elim disjE exE conjE)
    fix x
    assume "encode_cp c = [x]" "unat x < 0x80"
    with p assms show False by simp
  next
    fix x x2 xs
    assume "encode_cp c = x # x2 # xs" "unat x < 0xF5"
    with p assms show False by simp
  qed
qed

subsection \<open>Health check\<close>

text \<open>
  C9: whatever the configuration and whatever the outside world, the health operation
  answers with status 200 and the fixed payload \<open>{"status": "ok"}\<close>, and calls nothing.
\<close>

theorem health_fixed:
  "app cfg w GET_health = (HTTP_200 [(lit ''status'', Str (lit ''ok''))], [])"
  by (simp add: app_def health_def)

subsection \<open>Summarising\<close>

text \<open>
  C1: for every transcript \<open>t\<close> and instruction \<open>p\<close>, \<open>summarize\<close> makes exactly one call to
  the provider, and the prompt it passes is \<open>"Instruction: " + p + "\n\nTranscript:\n" + t\<close>;
  \<open>upload_and_summarize\<close> passes the same string, with the decoded file contents for \<open>t\<close>.
\<close>

theorem summarize_prompt:
  "snd (summarize cfg w \<lparr>transcript = t, prompt = p\<rparr>) =
     [GenerateContent (GEMINI_MODEL cfg)
        (lit ''Instruction: '' @ p @ lit ''\<newline>\<newline>Transcript:\<newline>'' @ t)] \<and>
   snd (upload_and_summarize cfg w content_bytes p) =
     [GenerateContent (GEMINI_MODEL cfg)
        (lit ''Instruction: '' @ p @ lit ''\<newline>\<newline>Transcript:\<newline>'' @
         decode_utf8_ignore content_bytes)]"
  by (simp add: summarize_def upload_and_summarize_def Let_def split: sum.split)

text \<open>
  C2: the specification has the provider's input prefixed by \<open>SYSTEM_PROMPT\<close>. The
  handler does not do that: for every transcript and instruction the only call to the provider
  carries the model name and the user content, and the user content does not start with
  \<open>SYSTEM_PROMPT\<close>; for the transcript \<open>Alice: ship by Friday.\<close> and the instruction
  \<open>List action items\<close> the system prompt occurs nowhere in what is sent.
\<close>

theorem system_prompt_not_sent:
  "snd (summarize cfg w \<lparr>transcript = t, prompt = p\<rparr>) =
     [GenerateContent (GEMINI_MODEL cfg)
        (lit ''Instruction: '' @ p @ lit ''\<newline>\<newline>Transcript:\<newline>'' @ t)] \<and>
   \<not> prefix SYSTEM_PROMPT (lit ''Instruction: '' @ p @ lit ''\<newline>\<newline>Transcript:\<newline>'' @ t) \<and>
   snd (summarize cfg w \<lparr>transcript = lit ''Alice: ship by Friday.'', prompt = lit ''List action items''\<rparr>) =
     [GenerateContent (GEMINI_MODEL cfg)
        (lit ''Instruction: List action items\<newline>\<newline>Transcript:\<newline>Alice: ship by Friday.'')] \<and>
   \<not> sublist SYSTEM_PROMPT
        (lit ''Instruction: List action items\<newline>\<newline>Transcript:\<newline>Alice: ship by Friday.'')"
proof -
  obtain rest where sp: "SYSTEM_PROMPT = 0x59 # rest"
    using SYSTEM_PROMPT_hd by blast
  have a: "\<not> prefix SYSTEM_PROMPT (lit ''Instruction: '' @ p @ lit ''\<newline>\<newline>Transcript:\<newline>'' @ t)"
    by (simp add: sp lit_Cons)
  have "length (lit ''Instruction: List action items\<newline>\<newline>Transcript:\<newline>Alice: ship by Friday.'') < length SYSTEM_PROMPT"
    using SYSTEM_PROMPT_long by (simp add: lit_def)
  then have b: "\<not> sublist SYSTEM_PROMPT
        (lit ''Instruction: List action items\<newline>\<newline>Transcript:\<newline>Alice: ship by Friday.'')"
    using sublist_length_le by fastforce
  have c: "snd (summarize cfg w \<lparr>transcript = t, prompt = p\<rparr>) =
     [GenerateContent (GEMINI_MODEL cfg)
        (lit ''Instruction: '' @ p @ lit ''\<newline>\<newline>Transcript:\<newline>'' @ t)]" for t p
    by (simp add: summarize_def Let_def split: sum.split)
  have d: "snd (summarize cfg w \<lparr>transcript = lit ''Alice: ship by Friday.'', prompt = lit ''List action items''\<rparr>) =
     [GenerateContent (GEMINI_MODEL cfg)
        (lit ''Instruction: List action items\<newline>\<newline>Transcript:\<newline>Alice: ship by Friday.'')]"
    by (simp add: c lit_def)
  from a b c d show ?thesis by blast
qed

text \<open>
  C7: for every uploaded byte sequence, \<open>upload_and_summarize\<close> does what \<open>summarize\<close> does
  on the decoded bytes, and decoding is total. The decoder is fixed by three equations:
  the empty input gives the empty string; where the encoding of a scalar value stands at
  the front, that character is produced and decoding goes on behind it; where no encoding
  of a scalar value stands at the front, the first byte is dropped and decoding goes on
  behind it. So nothing but ill-formed bytes is dropped: the result, encoded again, is a
  subsequence of the upload, it consists of scalar values, and the encoding of a string of
  scalar values is decoded to that string. Whenever the provider answers and its text can
  be read, the upload is answered with status 200.
\<close>

theorem upload_decodes_leniently:
  "upload_and_summarize cfg w content_bytes p =
     summarize cfg w \<lparr>transcript = decode_utf8_ignore content_bytes, prompt = p\<rparr> \<and>
   decode_utf8_ignore [] = [] \<and>
   (is_scalar c \<longrightarrow> decode_utf8_ignore (encode_cp c @ rest) = c # decode_utf8_ignore rest) \<and>
   ((\<forall>c'. is_scalar c' \<longrightarrow> \<not> prefix (encode_cp c') (b # bs)) \<longrightarrow>
      decode_utf8_ignore (b # bs) = decode_utf8_ignore bs) \<and>
   subseq (encode_utf8 (decode_utf8_ignore content_bytes)) content_bytes \<and>
   list_all is_scalar (decode_utf8_ignore content_bytes) \<and>
   (list_all is_scalar s \<longrightarrow> decode_utf8_ignore (encode_utf8 s) = s) \<and>
   (generate_content w (GEMINI_MODEL cfg)
      (lit ''Instruction: '' @ form_prompt q @ lit ''\<newline>\<newline>Transcript:\<newline>'' @
       decode_utf8_ignore content_bytes) = Inr r \<and> (\<forall>e. r \<noteq> TextRaises e) \<longrightarrow>
    (\<exists>d. fst (app cfg w (POST_upload_and_summarize content_bytes q)) = HTTP_200 d))"
proof -
  have a: "upload_and_summarize cfg w content_bytes p =
     summarize cfg w \<lparr>transcript = decode_utf8_ignore content_bytes, prompt = p\<rparr>"
    by (simp add: upload_and_summarize_def summarize_def Let_def)
  have t: "\<exists>x. summary_text r = Inr x" if "\<forall>e. r \<noteq> TextRaises e"
    using that by (cases r) (auto simp: summary_text_def getattr_text_def split: option.splits)
  have b: "\<exists>d. fst (app cfg w (POST_upload_and_summarize content_bytes q)) = HTTP_200 d"
    if "generate_content w (GEMINI_MODEL cfg)
      (lit ''Instruction: '' @ form_prompt q @ lit ''\<newline>\<newline>Transcript:\<newline>'' @
       decode_utf8_ignore content_bytes) = Inr r" and "\<forall>e. r \<noteq> TextRaises e"
  proof -
    from t [OF that(2)] obtain x where "summary_text r = Inr x" by blast
    with that(1) show ?thesis
      by (simp add: app_def respond_def upload_and_summarize_def Let_def)
  qed
  have n: "decode_utf8_ignore [] = []" by simp
  show ?thesis
    using a b n decode_subseq decode_scalar decode_encode decode_encode_cp decode_no_char
    by blast
qed

theorem upload_decodes_leniently_witness:
  "decode_utf8_ignore sample_upload = [0x41, 0x42, 0xE9] \<and>
   upload_and_summarize sample_config (mock_world (Inr (TextAttr (Some (lit ''ok'')))) None)
       sample_upload (lit ''List action items'') =
     summarize sample_config (mock_world (Inr (TextAttr (Some (lit ''ok'')))) None)
       \<lparr>transcript = [0x41, 0x42, 0xE9], prompt = lit ''List action items''\<rparr> \<and>
   is_scalar 0xE9 \<and>
   decode_utf8_ignore (encode_cp 0xE9 @ [0xE2, 0x82]) = 0xE9 # decode_utf8_ignore [0xE2, 0x82] \<and>
   decode_utf8_ignore (0xC3 # [0x42, 0x43, 0x44]) = decode_utf8_ignore [0x42, 0x43, 0x44] \<and>
   decode_utf8_ignore [0x42, 0x43, 0x44] = [0x42, 0x43, 0x44] \<and>
   subseq (encode_utf8 [0x41, 0x42, 0xE9]) sample_upload \<and>
   list_all is_scalar [0x41, 0x42, 0xE9] \<and>
   decode_utf8_ignore (encode_utf8 [0x41, 0x42, 0xE9]) = [0x41, 0x42, 0xE9] \<and>
   (\<exists>d. fst (app sample_config (mock_world (Inr (TextAttr (Some (lit ''ok'')))) None)
            (POST_upload_and_summarize sample_upload (Some []))) = HTTP_200 d)"
proof -
  have d: "decode_utf8_ignore sample_upload = [0x41, 0x42, 0xE9]"
    by (simp add: sample_upload_def is_cont_def second_ok_def)
  have d2: "decode_utf8_ignore [0x42, 0x43, 0x44] = [0x42, 0x43, 0x44]"
    by simp
  have sc: "list_all is_scalar [0x41, 0x42, 0xE9]" "is_scalar 0xE9"
    by (simp_all add: is_scalar_def)
  have nc: "\<forall>c'. is_scalar c' \<longrightarrow> \<not> prefix (encode_cp c') (0xC3 # [0x42, 0x43, 0x44])"
    by (rule no_char_bad_second) (simp_all add: is_cont_def)
  have g: "generate_content (mock_world (Inr (TextAttr (Some (lit ''ok'')))) None) m c =
      Inr (TextAttr (Some (lit ''ok'')))" for m c
    by (simp add: mock_world_def)
  show ?thesis
    using upload_decodes_leniently [where cfg = sample_config
        and w = "mock_world (Inr (TextAttr (Some (lit ''ok'')))) None"
        and content_bytes = sample_upload and p = "lit ''List action items''"
        and c = "0xE9" and rest = "[0xE2, 0x82]" and b = "0xC3" and bs = "[0x42, 0x43, 0x44]"
        and s = "[0x41, 0x42, 0xE9]" and q = "Some []" and r = "TextAttr (Some (lit ''ok''))"]
      sc nc g d2
    unfolding d by simp
qed

text \<open>
  When the provider's response has no \<open>text\<close> attribute, or its \<open>text\<close> is \<open>None\<close> or the
  empty string, both summarising operations answer with status 200 and the summary
  \<open>[no summary returned]\<close>.
\<close>

lemma empty_text_gives_sentinel:
  assumes "r = NoTextAttr \<or> r = TextAttr None \<or> r = TextAttr (Some [])"
  shows
   "(generate_content w (GEMINI_MODEL cfg)
       (lit ''Instruction: '' @ prompt body @ lit ''\<newline>\<newline>Transcript:\<newline>'' @ transcript body) = Inr r
     \<longrightarrow> fst (app cfg w (POST_summarize body)) =
           HTTP_200 [(lit ''summary'', Str (lit ''[no summary returned]''))]) \<and>
    (generate_content w (GEMINI_MODEL cfg)
       (lit ''Instruction: '' @ form_prompt q @ lit ''\<newline>\<newline>Transcript:\<newline>'' @
        decode_utf8_ignore content_bytes) = Inr r
     \<longrightarrow> fst (app cfg w (POST_upload_and_summarize content_bytes q)) =
           HTTP_200 [(lit ''summary'', Str (lit ''[no summary returned]''))])"
  using summary_text_empty [OF assms]
  by (simp add: app_def respond_def summarize_def upload_and_summarize_def Let_def)

text \<open>
  C3: the specification has every response without text answered with that summary,
  never with an error. The handlers miss one case: \<open>getattr(response, "text", None)\<close>
  stands in for a missing attribute only, so when reading \<open>response.text\<close> raises, as the
  provider's client does on a response without a text part, the exception leaves the
  handler and the request is answered with status 500.
\<close>

theorem text_error_escapes:
  "(generate_content w (GEMINI_MODEL cfg)
       (lit ''Instruction: '' @ prompt body @ lit ''\<newline>\<newline>Transcript:\<newline>'' @ transcript body) =
       Inr (TextRaises e)
     \<longrightarrow> app cfg w (POST_summarize body) =
           (HTTP_500 e,
            [GenerateContent (GEMINI_MODEL cfg)
               (lit ''Instruction: '' @ prompt body @ lit ''\<newline>\<newline>Transcript:\<newline>'' @
                transcript body)])) \<and>
    (generate_content w (GEMINI_MODEL cfg)
       (lit ''Instruction: '' @ form_prompt q @ lit ''\<newline>\<newline>Transcript:\<newline>'' @
        decode_utf8_ignore content_bytes) = Inr (TextRaises e)
     \<longrightarrow> app cfg w (POST_upload_and_summarize content_bytes q) =
           (HTTP_500 e,
            [GenerateContent (GEMINI_MODEL cfg)
               (lit ''Instruction: '' @ form_prompt q @ lit ''\<newline>\<newline>Transcript:\<newline>'' @
                decode_utf8_ignore content_bytes)]))"
  by (simp add: app_def respond_def summarize_def upload_and_summarize_def Let_def
        summary_text_def getattr_text_def)

theorem text_error_escapes_witness:
  "generate_content (mock_world (Inr (TextRaises no_valid_part)) None) (GEMINI_MODEL sample_config)
       (lit ''Instruction: '' @ prompt sample_summarize @ lit ''\<newline>\<newline>Transcript:\<newline>'' @
        transcript sample_summarize) = Inr (TextRaises no_valid_part) \<and>
   fst (app sample_config (mock_world (Inr (TextRaises no_valid_part)) None)
          (POST_summarize sample_summarize)) = HTTP_500 no_valid_part \<and>
   fst (app sample_config (mock_world (Inr (TextRaises no_valid_part)) None)
          (POST_upload_and_summarize sample_upload None)) = HTTP_500 no_valid_part"
proof -
  have g: "generate_content (mock_world (Inr (TextRaises no_valid_part)) None) m c =
      Inr (TextRaises no_valid_part)" for m c
    by (simp add: mock_world_def)
  show ?thesis
    using text_error_escapes [where w = "mock_world (Inr (TextRaises no_valid_part)) None"
        and cfg = sample_config and body = sample_summarize and e = no_valid_part and q = None
        and content_bytes = sample_upload] g
    by simp
qed

text \<open>
  C10: when the provider's response has a non-empty \<open>text\<close>, the summary that both
  summarising operations return is that text without its leading and trailing white space;
  so a text of white space only gives the empty summary, not \<open>[no summary returned]\<close>.
\<close>

theorem nonempty_text_is_stripped:
  assumes "t \<noteq> []"
  shows
   "(generate_content w (GEMINI_MODEL cfg)
       (lit ''Instruction: '' @ prompt body @ lit ''\<newline>\<newline>Transcript:\<newline>'' @ transcript body) =
       Inr (TextAttr (Some t))
     \<longrightarrow> fst (summarize cfg w body) = Inr [(lit ''summary'', Str (strip t))]) \<and>
    (generate_content w (GEMINI_MODEL cfg)
       (lit ''Instruction: '' @ p @ lit ''\<newline>\<newline>Transcript:\<newline>'' @ decode_utf8_ignore content_bytes) =
       Inr (TextAttr (Some t))
     \<longrightarrow> fst (upload_and_summarize cfg w content_bytes p) = Inr [(lit ''summary'', Str (strip t))]) \<and>
    (list_all isspace t \<longrightarrow> strip t = [] \<and> strip t \<noteq> lit ''[no summary returned]'')"
  using summary_text_nonempty [OF assms]
  by (simp add: summarize_def upload_and_summarize_def Let_def strip_all_space lit_def)

theorem nonempty_text_is_stripped_witness:
  "lit '' - Alice: ship by Friday\<newline>'' \<noteq> [] \<and>
   fst (summarize sample_config (mock_world (Inr (TextAttr (Some (lit '' - Alice: ship by Friday\<newline>'')))) None)
          sample_summarize) = Inr [(lit ''summary'', Str (lit ''- Alice: ship by Friday''))] \<and>
   fst (upload_and_summarize sample_config
          (mock_world (Inr (TextAttr (Some (lit '' - Alice: ship by Friday\<newline>'')))) None)
          sample_upload (lit ''List action items'')) = Inr [(lit ''summary'', Str (lit ''- Alice: ship by Friday''))] \<and>
   lit '' \<newline>'' \<noteq> [] \<and> list_all isspace (lit '' \<newline>'') \<and>
   fst (summarize sample_config (mock_world (Inr (TextAttr (Some (lit '' \<newline>'')))) None) sample_summarize) =
     Inr [(lit ''summary'', Str [])]"
proof -
  have h1: "lit '' - Alice: ship by Friday\<newline>'' \<noteq> []" by (simp add: lit_def)
  have h2: "lit '' \<newline>'' \<noteq> []" by (simp add: lit_def)
  have sp: "list_all isspace (lit '' \<newline>'')" by (simp add: lit_def isspace_def)
  have st: "strip (lit '' - Alice: ship by Friday\<newline>'') = lit ''- Alice: ship by Friday''"
    by (simp add: strip_def lit_def isspace_def)
  have g: "generate_content (mock_world a None) m c = a" for a m c
    by (simp add: mock_world_def)
  show ?thesis
    using nonempty_text_is_stripped [OF h1,
        of "mock_world (Inr (TextAttr (Some (lit '' - Alice: ship by Friday\<newline>'')))) None"
        sample_config sample_summarize "lit ''List action items''" sample_upload]
      nonempty_text_is_stripped [OF h2, of "mock_world (Inr (TextAttr (Some (lit '' \<newline>'')))) None"
        sample_config sample_summarize "[]" "[]"]
      h1 h2 sp st g
    by simp
qed

subsection \<open>Sending mail\<close>

text \<open>
  C4, as the specification states it: one of the SMTP variables unset or empty would be
  enough for the failure result. With \<open>SMTP_HOST\<close>, \<open>SMTP_PORT\<close> and \<open>FROM_EMAIL\<close> unset the
  defaults of the start-up code fill them in, and the mail is sent through
  \<open>smtp.gmail.com\<close>, port 587.
\<close>

theorem unset_host_counterexample:
  "sample_environ (lit ''SMTP_HOST'') = None \<and>
   load_config sample_environ = Inr sample_config \<and>
   send_email sample_config (mock_world (Inr NoTextAttr) None) sample_email =
     (Inr [(lit ''ok'', Bool True)],
      [SMTP (lit ''smtp.gmail.com'') 587, Starttls, Login (lit ''bot@example.org'') (lit ''s3cret''),
       SendMessage sample_message, SMTPExit]) \<and>
   send_email sample_config (mock_world (Inr NoTextAttr) None) sample_email \<noteq>
     (Inr [(lit ''ok'', Bool False), (lit ''error'', Str (lit ''SMTP not configured on server.''))], [])"
proof -
  have a: "sample_environ (lit ''SMTP_HOST'') = None"
    by (simp add: sample_environ_def lit_def)
  have b: "send_email sample_config (mock_world (Inr NoTextAttr) None) sample_email =
     (Inr [(lit ''ok'', Bool True)],
      [SMTP (lit ''smtp.gmail.com'') 587, Starttls, Login (lit ''bot@example.org'') (lit ''s3cret''),
       SendMessage sample_message, SMTPExit])"
    by (simp add: send_email_def smtp_with_def smtp_block_def build_message_def sample_config_def
          mock_world_def sample_email_def sample_message_def lit_def)
  show ?thesis
    unfolding b using a load_sample by simp
qed

text \<open>
  C4, amended: when the configuration has been read and \<open>SMTP_USER\<close> or \<open>SMTP_PASS\<close> is
  unset or empty, or \<open>SMTP_HOST\<close> or \<open>FROM_EMAIL\<close> is set to the empty string, or the port
  is zero, \<open>send_email\<close> returns \<open>{"ok": false, "error": "SMTP not configured on server."}\<close>
  and calls nothing. In every other case it goes on: once the message is put together it
  opens the SMTP connection. An unset \<open>SMTP_HOST\<close> is \<open>smtp.gmail.com\<close>, an unset
  \<open>SMTP_PORT\<close> is 587, and an unset \<open>FROM_EMAIL\<close> is the SMTP user.
\<close>

theorem smtp_not_configured:
  assumes "load_config environ = Inr cfg"
  shows
   "(environ (lit ''SMTP_HOST'') = Some [] \<or> SMTP_PORT cfg = 0 \<or>
     environ (lit ''SMTP_USER'') = None \<or> environ (lit ''SMTP_USER'') = Some [] \<or>
     environ (lit ''SMTP_PASS'') = None \<or> environ (lit ''SMTP_PASS'') = Some [] \<or>
     environ (lit ''FROM_EMAIL'') = Some []
     \<longrightarrow> send_email cfg w body =
           (Inr [(lit ''ok'', Bool False),
                 (lit ''error'', Str (lit ''SMTP not configured on server.''))], [])) \<and>
    (\<not> (environ (lit ''SMTP_HOST'') = Some [] \<or> SMTP_PORT cfg = 0 \<or>
        environ (lit ''SMTP_USER'') = None \<or> environ (lit ''SMTP_USER'') = Some [] \<or>
        environ (lit ''SMTP_PASS'') = None \<or> environ (lit ''SMTP_PASS'') = Some [] \<or>
        environ (lit ''FROM_EMAIL'') = Some []) \<and>
     message_error w (build_message cfg body) = None
     \<longrightarrow> (\<exists>evs. snd (send_email cfg w body) = SMTP (SMTP_HOST cfg) (SMTP_PORT cfg) # evs)) \<and>
    (environ (lit ''SMTP_HOST'') = None \<longrightarrow> SMTP_HOST cfg = lit ''smtp.gmail.com'') \<and>
    (environ (lit ''SMTP_PORT'') = None \<longrightarrow> SMTP_PORT cfg = 587) \<and>
    (environ (lit ''FROM_EMAIL'') = None \<longrightarrow> FROM_EMAIL cfg = SMTP_USER cfg)"
proof -
  from assms obtain key port where
    port: "py_int (getenv environ (lit ''SMTP_PORT'') (lit ''587'')) = Some port" and
    cfg: "cfg = \<lparr> GEMINI_API_KEY = key,
                       GEMINI_MODEL = getenv environ (lit ''GEMINI_MODEL'') (lit ''gemini-1.5-flash''),
                       SMTP_HOST = getenv environ (lit ''SMTP_HOST'') (lit ''smtp.gmail.com''),
                       SMTP_PORT = port,
                       SMTP_USER = getenv environ (lit ''SMTP_USER'') [],
                       SMTP_PASS = getenv environ (lit ''SMTP_PASS'') [],
                       FROM_EMAIL = getenv environ (lit ''FROM_EMAIL'')
                                      (getenv environ (lit ''SMTP_USER'') []) \<rparr>"
    by (auto simp: load_config_def split: option.splits if_splits)
  let ?D = "environ (lit ''SMTP_HOST'') = Some [] \<or> SMTP_PORT cfg = 0 \<or>
     environ (lit ''SMTP_USER'') = None \<or> environ (lit ''SMTP_USER'') = Some [] \<or>
     environ (lit ''SMTP_PASS'') = None \<or> environ (lit ''SMTP_PASS'') = Some [] \<or>
     environ (lit ''FROM_EMAIL'') = Some []"
  let ?E = "SMTP_HOST cfg = [] \<or> SMTP_PORT cfg = 0 \<or> SMTP_USER cfg = [] \<or> SMTP_PASS cfg = [] \<or>
        FROM_EMAIL cfg = []"
  have nz: "lit ''smtp.gmail.com'' \<noteq> []"
    by (simp add: lit_def)
  have de: "?D \<longleftrightarrow> ?E"
    using nz by (auto simp: cfg getenv_def split: option.splits)
  have one: "send_email cfg w body =
           (Inr [(lit ''ok'', Bool False),
                 (lit ''error'', Str (lit ''SMTP not configured on server.''))], [])" if ?D
  proof -
    from that de have ?E by blast
    then show ?thesis by (auto simp: send_email_def)
  qed
  have two: "\<exists>evs. snd (send_email cfg w body) = SMTP (SMTP_HOST cfg) (SMTP_PORT cfg) # evs"
    if "\<not> ?D" and "message_error w (build_message cfg body) = None"
  proof -
    from that(1) de have "\<not> ?E" by blast
    then have "send_email cfg w body =
     (case smtp_with cfg w (build_message cfg body) of
                (Some e, evs) \<Rightarrow>
                  (Inr [(lit ''ok'', Bool False), (lit ''error'', Str (exc_str e))], evs)
              | (None, evs) \<Rightarrow> (Inr [(lit ''ok'', Bool True)], evs))"
      using that(2) by (simp add: send_email_def)
    then show ?thesis
      by (auto simp: smtp_with_def split: option.splits prod.splits)
  qed
  have three: "SMTP_HOST cfg = lit ''smtp.gmail.com''" if "environ (lit ''SMTP_HOST'') = None"
    using that by (simp add: cfg getenv_def)
  have four: "SMTP_PORT cfg = 587" if "environ (lit ''SMTP_PORT'') = None"
    using that port py_int_587 by (simp add: cfg getenv_def)
  have five: "FROM_EMAIL cfg = SMTP_USER cfg" if "environ (lit ''FROM_EMAIL'') = None"
    using that by (simp add: cfg getenv_def)
  from one two three four five show ?thesis by blast
qed

theorem smtp_not_configured_witness:
  "load_config bare_environ = Inr bare_config \<and>
   bare_environ (lit ''SMTP_USER'') = None \<and>
   send_email bare_config (mock_world (Inr NoTextAttr) None) sample_email =
     (Inr [(lit ''ok'', Bool False), (lit ''error'', Str (lit ''SMTP not configured on server.''))], []) \<and>
   load_config zero_port_environ = Inr zero_port_config \<and>
   SMTP_PORT zero_port_config = 0 \<and>
   send_email zero_port_config (mock_world (Inr NoTextAttr) None) sample_email =
     (Inr [(lit ''ok'', Bool False), (lit ''error'', Str (lit ''SMTP not configured on server.''))], []) \<and>
   load_config sample_environ = Inr sample_config \<and>
   sample_environ (lit ''SMTP_HOST'') = None \<and> SMTP_HOST sample_config = lit ''smtp.gmail.com'' \<and>
   sample_environ (lit ''SMTP_PORT'') = None \<and> SMTP_PORT sample_config = 587 \<and>
   sample_environ (lit ''FROM_EMAIL'') = None \<and> FROM_EMAIL sample_config = SMTP_USER sample_config \<and>
   (\<exists>evs. snd (send_email sample_config (mock_world (Inr NoTextAttr) None) sample_email) =
            SMTP (lit ''smtp.gmail.com'') 587 # evs)"
proof -
  have h1: "load_config bare_environ = Inr bare_config"
    by (simp add: load_config_def bare_environ_def bare_config_def getenv_def py_int_def
          to_ascii_def ascii_space_def isdigit_def lit_def)
  have h2: "bare_environ (lit ''SMTP_USER'') = None"
    by (simp add: bare_environ_def lit_def)
  have z: "SMTP_PORT zero_port_config = 0"
    by (simp add: zero_port_config_def)
  have e: "sample_environ (lit ''SMTP_HOST'') = None" "sample_environ (lit ''SMTP_PORT'') = None"
    "sample_environ (lit ''FROM_EMAIL'') = None"
    "sample_environ (lit ''SMTP_USER'') = Some (lit ''bot@example.org'')"
    "sample_environ (lit ''SMTP_PASS'') = Some (lit ''s3cret'')"
    by (simp_all add: sample_environ_def lit_def)
  have ne: "lit ''bot@example.org'' \<noteq> []" "lit ''s3cret'' \<noteq> []"
    by (simp_all add: lit_def)
  have p: "SMTP_PORT sample_config \<noteq> 0"
    by (simp add: sample_config_def)
  have m: "message_error (mock_world (Inr NoTextAttr) None) (build_message sample_config sample_email) = None"
    by (simp add: mock_world_def)
  have s: "SMTP_HOST sample_config = lit ''smtp.gmail.com''" "SMTP_PORT sample_config = 587"
    by (simp_all add: sample_config_def)
  show ?thesis
    using h1 h2 z e ne p m load_zero_port load_sample
      smtp_not_configured [OF h1, of "mock_world (Inr NoTextAttr) None" sample_email]
      smtp_not_configured [OF load_zero_port, of "mock_world (Inr NoTextAttr) None" sample_email]
      smtp_not_configured [OF load_sample, of "mock_world (Inr NoTextAttr) None" sample_email]
    by (simp add: s)
qed

text \<open>
  C5, as the specification states it: no exception would ever reach the caller. The
  message is put together before the \<open>try\<close> statement, so an exception of the \<open>email\<close>
  package leaves the handler: a subject of two lines is refused with a \<open>ValueError\<close>, and
  the request is answered with status 500.
\<close>

theorem header_error_counterexample:
  "SMTP_HOST sample_config \<noteq> [] \<and> SMTP_PORT sample_config \<noteq> 0 \<and> SMTP_USER sample_config \<noteq> [] \<and>
   SMTP_PASS sample_config \<noteq> [] \<and> FROM_EMAIL sample_config \<noteq> [] \<and>
   parse_EmailIn strict_world two_line_request = Some two_line_email \<and>
   send_email sample_config strict_world two_line_email = (Inl header_error, []) \<and>
   app sample_config strict_world (POST_email two_line_request) = (HTTP_500 header_error, [])"
proof -
  have c: "SMTP_HOST sample_config \<noteq> []" "SMTP_PORT sample_config \<noteq> 0" "SMTP_USER sample_config \<noteq> []"
    "SMTP_PASS sample_config \<noteq> []" "FROM_EMAIL sample_config \<noteq> []"
    by (simp_all add: sample_config_def lit_def)
  have p: "parse_EmailIn strict_world two_line_request = Some two_line_email"
    by (simp add: parse_EmailIn_def strict_world_def mock_world_def two_line_request_def
          two_line_email_def lit_def)
  have r: "header_refused (lit ''Minutes\<newline>Bcc: eve@example.org'')"
    by (simp add: header_refused_def splitlines_def line_boundary_def lit_def)
  have m: "message_error strict_world (build_message sample_config two_line_email) = Some header_error"
    using r by (simp add: strict_world_def strict_headers_def build_message_def two_line_email_def)
  have s: "send_email sample_config strict_world two_line_email = (Inl header_error, [])"
    using c m by (simp add: send_email_def)
  show ?thesis
    using c p s by (simp add: app_def respond_def)
qed

text \<open>
  C5, amended: with SMTP configured and the message put together, no exception leaves
  \<open>send_email\<close>. An exception raised by the connection, by \<open>starttls\<close>, by \<open>login\<close>, by
  \<open>send_message\<close> or on leaving the session is caught, and the result is
  \<open>{"ok": false, "error": str(e)}\<close>; when nothing is raised the result is \<open>{"ok": true}\<close>.
\<close>

theorem smtp_errors_are_caught:
  assumes "SMTP_HOST cfg \<noteq> []" and "SMTP_PORT cfg \<noteq> 0" and "SMTP_USER cfg \<noteq> []"
    and "SMTP_PASS cfg \<noteq> []" and "FROM_EMAIL cfg \<noteq> []"
    and "message_error w (build_message cfg body) = None"
  shows
   "(\<forall>x. fst (send_email cfg w body) \<noteq> Inl x) \<and>
    (smtp_connect w (SMTP_HOST cfg) (SMTP_PORT cfg) = Some e \<longrightarrow>
       send_email cfg w body =
         (Inr [(lit ''ok'', Bool False), (lit ''error'', Str (exc_str e))],
          [SMTP (SMTP_HOST cfg) (SMTP_PORT cfg)])) \<and>
    (smtp_connect w (SMTP_HOST cfg) (SMTP_PORT cfg) = None \<and> smtp_exit w = None \<and>
     smtp_starttls w = Some e \<longrightarrow>
       fst (send_email cfg w body) = Inr [(lit ''ok'', Bool False), (lit ''error'', Str (exc_str e))]) \<and>
    (smtp_connect w (SMTP_HOST cfg) (SMTP_PORT cfg) = None \<and> smtp_exit w = None \<and>
     smtp_starttls w = None \<and> smtp_login w (SMTP_USER cfg) (SMTP_PASS cfg) = Some e \<longrightarrow>
       fst (send_email cfg w body) = Inr [(lit ''ok'', Bool False), (lit ''error'', Str (exc_str e))]) \<and>
    (smtp_connect w (SMTP_HOST cfg) (SMTP_PORT cfg) = None \<and> smtp_exit w = None \<and>
     smtp_starttls w = None \<and> smtp_login w (SMTP_USER cfg) (SMTP_PASS cfg) = None \<and>
     smtp_send_message w (build_message cfg body) = Some e \<longrightarrow>
       fst (send_email cfg w body) = Inr [(lit ''ok'', Bool False), (lit ''error'', Str (exc_str e))]) \<and>
    (smtp_connect w (SMTP_HOST cfg) (SMTP_PORT cfg) = None \<and> smtp_exit w = Some e \<longrightarrow>
       fst (send_email cfg w body) = Inr [(lit ''ok'', Bool False), (lit ''error'', Str (exc_str e))]) \<and>
    (smtp_connect w (SMTP_HOST cfg) (SMTP_PORT cfg) = None \<and> smtp_starttls w = None \<and>
     smtp_login w (SMTP_USER cfg) (SMTP_PASS cfg) = None \<and>
     smtp_send_message w (build_message cfg body) = None \<and> smtp_exit w = None \<longrightarrow>
       send_email cfg w body =
         (Inr [(lit ''ok'', Bool True)],
          [SMTP (SMTP_HOST cfg) (SMTP_PORT cfg), Starttls, Login (SMTP_USER cfg) (SMTP_PASS cfg),
           SendMessage (build_message cfg body), SMTPExit]))"
proof -
  have cfgd: "list_all (\<lambda>b. b)
            [SMTP_HOST cfg \<noteq> [], SMTP_PORT cfg \<noteq> 0, SMTP_USER cfg \<noteq> [], SMTP_PASS cfg \<noteq> [],
             FROM_EMAIL cfg \<noteq> []]"
    using assms by simp
  have se: "send_email cfg w body =
     (case smtp_with cfg w (build_message cfg body) of
                (Some e, evs) \<Rightarrow>
                  (Inr [(lit ''ok'', Bool False), (lit ''error'', Str (exc_str e))], evs)
              | (None, evs) \<Rightarrow> (Inr [(lit ''ok'', Bool True)], evs))"
    unfolding send_email_def using cfgd assms(6) by simp
  show ?thesis
    unfolding se
    by (auto simp: smtp_with_def smtp_block_def split: option.splits prod.splits)
qed

theorem smtp_errors_are_caught_witness:
  "SMTP_HOST sample_config \<noteq> [] \<and> SMTP_PORT sample_config \<noteq> 0 \<and> SMTP_USER sample_config \<noteq> [] \<and>
   SMTP_PASS sample_config \<noteq> [] \<and> FROM_EMAIL sample_config \<noteq> [] \<and>
   message_error (mock_world (Inr NoTextAttr) (Some bad_credentials)) (build_message sample_config sample_email) = None \<and>
   fst (send_email sample_config (mock_world (Inr NoTextAttr) (Some bad_credentials)) sample_email) =
     Inr [(lit ''ok'', Bool False), (lit ''error'', Str (lit ''(535, Bad credentials)''))] \<and>
   send_email sample_config (mock_world (Inr NoTextAttr) None) sample_email =
     (Inr [(lit ''ok'', Bool True)],
      [SMTP (lit ''smtp.gmail.com'') 587, Starttls, Login (lit ''bot@example.org'') (lit ''s3cret''),
       SendMessage sample_message, SMTPExit])"
proof -
  have c: "SMTP_HOST sample_config \<noteq> []" "SMTP_PORT sample_config \<noteq> 0" "SMTP_USER sample_config \<noteq> []"
    "SMTP_PASS sample_config \<noteq> []" "FROM_EMAIL sample_config \<noteq> []"
    by (simp_all add: sample_config_def lit_def)
  have m: "message_error (mock_world a l) (build_message sample_config sample_email) = None" for a l
    by (simp add: mock_world_def)
  have b: "build_message sample_config sample_email = sample_message"
    by (simp add: build_message_def sample_config_def sample_email_def sample_message_def lit_def)
  have f: "sample_config = \<lparr> GEMINI_API_KEY = lit ''k3y'',
       GEMINI_MODEL = lit ''gemini-1.5-flash'',
       SMTP_HOST = lit ''smtp.gmail.com'',
       SMTP_PORT = 587,
       SMTP_USER = lit ''bot@example.org'',
       SMTP_PASS = lit ''s3cret'',
       FROM_EMAIL = lit ''bot@example.org'' \<rparr>" by (simp add: sample_config_def)
  show ?thesis
    using c m
      smtp_errors_are_caught [OF c m, of "Inr NoTextAttr" "Some bad_credentials" bad_credentials]
      smtp_errors_are_caught [OF c m, of "Inr NoTextAttr" None bad_credentials]
    by (simp add: b mock_world_def bad_credentials_def) (simp add: f)
qed

text \<open>
  C6: a request to \<open>/email\<close> with a recipient that the address check refuses is answered
  with status 422; the handler is not called and nothing outside is called.
\<close>

theorem malformed_recipient_rejected:
  "a \<in> set (req_recipients r) \<Longrightarrow> validate_email w a = None \<Longrightarrow>
   app cfg w (POST_email r) = (HTTP_422, [])"
  by (simp add: app_def parse_EmailIn_def validate_all_None)

theorem malformed_recipient_rejected_witness:
  "lit ''not-an-email'' \<in> set (req_recipients sample_request) \<and>
   validate_email (mock_world (Inr NoTextAttr) None) (lit ''not-an-email'') = None \<and>
   app sample_config (mock_world (Inr NoTextAttr) None) (POST_email sample_request) = (HTTP_422, [])"
proof -
  have h1: "lit ''not-an-email'' \<in> set (req_recipients sample_request)"
    by (simp add: sample_request_def)
  have h2: "validate_email (mock_world (Inr NoTextAttr) None) (lit ''not-an-email'') = None"
    by (simp add: mock_world_def lit_def)
  show ?thesis
    using h1 h2 malformed_recipient_rejected [OF h1 h2, of sample_config] by simp
qed

text \<open>
  C8: every message that \<open>send_email\<close> hands to the SMTP session has the summary as its
  plain-text body and, as its HTML alternative, the same summary, character for character,
  between \<open><pre style="font-family: ui-monospace, monospace;">\<close> and \<open></pre>\<close>.
\<close>

theorem message_bodies:
  \<open>SendMessage m \<in> set (snd (send_email cfg w body)) \<Longrightarrow>
   content m = summary body \<and>
   alternative m =
     (lit ''<html><body><pre style="font-family: ui-monospace, monospace;">'' @ summary body @
      lit ''</pre></body></html>'', lit ''html'')\<close>
  by (auto simp: send_email_def smtp_with_def smtp_block_def build_message_def
           split: if_splits option.splits prod.splits)

theorem message_bodies_witness:
  \<open>SendMessage sample_message \<in> set (snd (send_email sample_config (mock_world (Inr NoTextAttr) None) sample_email)) \<and>
   content sample_message = lit ''<b>Q&A</b>'' \<and>
   alternative sample_message =
     (lit ''<html><body><pre style="font-family: ui-monospace, monospace;">'' @ lit ''<b>Q&A</b>'' @
      lit ''</pre></body></html>'', lit ''html'')\<close>
proof -
  have h: "SendMessage sample_message \<in> set (snd (send_email sample_config (mock_world (Inr NoTextAttr) None) sample_email))"
    by (simp add: send_email_def smtp_with_def smtp_block_def build_message_def sample_config_def
          mock_world_def sample_email_def sample_message_def lit_def)
  show ?thesis
    using h message_bodies [OF h] by (simp add: sample_email_def)
qed

end
